theory Spec2Isabelle
  imports Complex_Main "HOL-Library.Multiset"
begin

section \<open>BSON documents\<close>

text \<open>
  The document model of the database: a document is an ordered sequence of fields, a field
  (\<open>BSONElement\<close>) is a name with a tagged value. Arrays are stored the way BSON stores
  them, as documents whose field names are the decimal indices. The payload of a double is
  kept as a rational (the non-finite doubles are left out); the source never computes with it.
\<close>

datatype BSONType =
    MinKey | EOO | NumberDouble | String | Object | Array | BinData | Undefined
  | jstOID | Bool | Date | jstNULL | RegEx | DBRef | Code | Symbol | CodeWScope
  | NumberInt | bsonTimestamp | NumberLong | NumberDecimal | MaxKey

datatype BSONValue =
    MinKeyValue
  | DoubleValue rat
  | StringValue string
  | ObjectValue "(string \<times> BSONValue) list"
  | ArrayValue "(string \<times> BSONValue) list"
  | BinDataValue string
  | UndefinedValue
  | OIDValue string
  | BoolValue bool
  | DateValue int
  | NullValue
  | RegExValue string string
  | DBRefValue string string
  | CodeValue string
  | SymbolValue string
  | CodeWScopeValue string "(string \<times> BSONValue) list"
  | IntValue int
  | TimestampValue int
  | LongValue int
  | DecimalValue rat
  | MaxKeyValue

type_synonym BSONElement = "string \<times> BSONValue"
type_synonym BSONObj = "BSONElement list"

definition fieldName :: "BSONElement \<Rightarrow> string" where
  "fieldName e = fst e"

fun valueType :: "BSONValue \<Rightarrow> BSONType" where
  "valueType MinKeyValue = MinKey"
| "valueType (DoubleValue _) = NumberDouble"
| "valueType (StringValue _) = String"
| "valueType (ObjectValue _) = Object"
| "valueType (ArrayValue _) = Array"
| "valueType (BinDataValue _) = BinData"
| "valueType UndefinedValue = Undefined"
| "valueType (OIDValue _) = jstOID"
| "valueType (BoolValue _) = Bool"
| "valueType (DateValue _) = Date"
| "valueType NullValue = jstNULL"
| "valueType (RegExValue _ _) = RegEx"
| "valueType (DBRefValue _ _) = DBRef"
| "valueType (CodeValue _) = Code"
| "valueType (SymbolValue _) = Symbol"
| "valueType (CodeWScopeValue _ _) = CodeWScope"
| "valueType (IntValue _) = NumberInt"
| "valueType (TimestampValue _) = bsonTimestamp"
| "valueType (LongValue _) = NumberLong"
| "valueType (DecimalValue _) = NumberDecimal"
| "valueType MaxKeyValue = MaxKey"

text \<open>\<open>BSONElement::type()\<close>.\<close>

definition elemType :: "BSONElement \<Rightarrow> BSONType" where
  "elemType e = valueType (snd e)"

text \<open>
  \<open>BSONElement::Obj()\<close> / \<open>embeddedObject()\<close>: the fields of an embedded document or
  array. The source calls it only behind a check of the tag; elsewhere the model gives no
  fields.
\<close>

fun embeddedObject :: "BSONElement \<Rightarrow> BSONObj" where
  "embeddedObject (_, ObjectValue fields) = fields"
| "embeddedObject (_, ArrayValue fields) = fields"
| "embeddedObject _ = []"

text \<open>\<open>isNumericBSONType\<close> and \<open>BSONElement::isNumber()\<close>, \<open>isBoolean()\<close>.\<close>

fun isNumericBSONType :: "BSONType \<Rightarrow> bool" where
  "isNumericBSONType NumberDouble = True"
| "isNumericBSONType NumberInt = True"
| "isNumericBSONType NumberLong = True"
| "isNumericBSONType NumberDecimal = True"
| "isNumericBSONType _ = False"

definition isNumber :: "BSONElement \<Rightarrow> bool" where
  "isNumber e = isNumericBSONType (elemType e)"

definition isBoolean :: "BSONElement \<Rightarrow> bool" where
  "isBoolean e = (elemType e = Bool)"

section \<open>Outcomes\<close>

text \<open>
  A function of the source either returns, returns a non-OK \<open>Status\<close> (an error code and a
  message), or does not return at all: \<open>invariant\<close> aborts the process, and reading through a
  null \<open>unique_ptr\<close> is undefined behaviour. All three are values of the model.
\<close>

datatype ErrorCodes = TypeMismatch | BadValue | FailedToParse | Location nat

datatype Failure =
    Status ErrorCodes string
  | InvariantFailure
  | NullPointerDereference

section \<open>The AllowedProperties match node\<close>

subsection \<open>The match-expression library, as the node uses it\<close>

text \<open>
  The node owns sub-expressions of the match-expression library (type \<open>'e\<close>) and query tags
  (type \<open>'t\<close>), and compiles its regular expressions with PCRE. It reaches them through
  these operations only, which the model takes as parameters: \<open>matchesSingleElement\<close>,
  \<open>equivalent\<close>, \<open>shallowClone\<close> and \<open>serialize\<close> of a sub-expression (the last appends
  to a builder, here the list of fields written so far), \<open>pcrecpp::RE::PartialMatch\<close> of
  the regex compiled from a pattern, and \<open>TagData::clone\<close>.
\<close>

record ('e, 't) MatchLibrary =
  filterMatchesSingleElement :: "'e \<Rightarrow> BSONElement \<Rightarrow> bool"
  filterEquivalent :: "'e \<Rightarrow> 'e \<Rightarrow> bool"
  filterShallowClone :: "'e \<Rightarrow> 'e"
  filterSerialize :: "'e \<Rightarrow> BSONObj \<Rightarrow> BSONObj"
  PartialMatch :: "string \<Rightarrow> string \<Rightarrow> bool"
  tagClone :: "'t \<Rightarrow> 't"

subsection \<open>State\<close>

text \<open>
  \<open>struct Regex\<close>: its only constructor builds the compiled regex and the serialized
  source from the same string, so one string stands for both.
\<close>

datatype Regex = Regex string

fun regex :: "Regex \<Rightarrow> string" where
  "regex (Regex x) = x"

fun serializedRegex :: "Regex \<Rightarrow> string" where
  "serializedRegex (Regex x) = x"

definition cloneRegex :: "Regex \<Rightarrow> Regex" where
  "cloneRegex r = Regex (serializedRegex r)"

text \<open>\<open>ExpressionWithPlaceholder\<close>: a placeholder name and the filter built around it.\<close>

record 'e ExpressionWithPlaceholder =
  getPlaceholder :: string
  getFilter :: 'e

type_synonym 'e PatternElem = "Regex \<times> 'e ExpressionWithPlaceholder"
type_synonym 'e PatternArray = "'e PatternElem list"

text \<open>
  The members of the class. \<open>properties\<close> is an unordered set of strings: the list is its
  iteration order, and the source compares two such sets by their elements only
  (\<open>samePropertiesSet\<close>). \<open>otherwise\<close> is the owning pointer, \<open>None\<close> when null; the
  boolean fallback is a member of its own, as in the source.
\<close>

record ('e, 't) AllowedProperties =
  tag :: "'t option"
  properties :: "string list"
  patternProperties :: "'e PatternArray"
  otherwise :: "'e ExpressionWithPlaceholder option"
  boolOtherwise :: bool
  namePlaceholder :: string

definition samePropertiesSet :: "string list \<Rightarrow> string list \<Rightarrow> bool" where
  "samePropertiesSet ps qs = (set ps = set qs)"

text \<open>The constructor: no tag, empty collections, a null \<open>_otherwise\<close>, \<open>_boolOtherwise\<close> true.\<close>

definition newAllowedProperties :: "('e, 't) AllowedProperties" where
  "newAllowedProperties =
     \<lparr>tag = None, properties = [], patternProperties = [], otherwise = None,
      boolOtherwise = True, namePlaceholder = []\<rparr>"

text \<open>The two overloads of \<open>init\<close>, with their invariants.\<close>

definition initExpression ::
  "('e, 't) AllowedProperties \<Rightarrow> string list \<Rightarrow> 'e PatternArray \<Rightarrow>
   'e ExpressionWithPlaceholder option \<Rightarrow> string \<Rightarrow> Failure + ('e, 't) AllowedProperties" where
  "initExpression this props pats other name =
     (if name = [] then Inl InvariantFailure
      else Inr (this\<lparr>properties := props, patternProperties := pats, otherwise := other,
                     namePlaceholder := name\<rparr>))"

definition initBool ::
  "('e, 't) AllowedProperties \<Rightarrow> string list \<Rightarrow> 'e PatternArray \<Rightarrow> bool \<Rightarrow> string \<Rightarrow>
   Failure + ('e, 't) AllowedProperties" where
  "initBool this props pats other name =
     (if length pats > 0 \<and> name = [] then Inl InvariantFailure
      else Inr (this\<lparr>properties := props, patternProperties := pats, boolOtherwise := other,
                     namePlaceholder := name\<rparr>))"

subsection \<open>Matching\<close>

text \<open>
  The inner loop of \<open>_matchesObject\<close> over the patterns, for one field. \<open>None\<close> is the
  \<open>return false\<close> from inside the loop; otherwise the loop ends with the current value of
  \<open>checkOtherwise\<close>.
\<close>

fun patternLoop ::
  "('e, 't) MatchLibrary \<Rightarrow> 'e PatternArray \<Rightarrow> BSONElement \<Rightarrow> bool \<Rightarrow> bool option" where
  "patternLoop L [] item checkOtherwise = Some checkOtherwise"
| "patternLoop L (elem # rest) item checkOtherwise =
     (let matchExp = getFilter (snd elem) in
      if PartialMatch L (regex (fst elem)) (fieldName item)
      then (if \<not> filterMatchesSingleElement L matchExp item then None
            else patternLoop L rest item False)
      else patternLoop L rest item checkOtherwise)"

text \<open>\<open>_matchesObject\<close>: the loop over the fields of the object.\<close>

fun matchesObject ::
  "('e, 't) MatchLibrary \<Rightarrow> ('e, 't) AllowedProperties \<Rightarrow> BSONObj \<Rightarrow> bool" where
  "matchesObject L this [] = True"
| "matchesObject L this (item # rest) =
     (let checkOtherwise = (if fieldName item \<in> set (properties this) then False else True)
      in case patternLoop L (patternProperties this) item checkOtherwise of
           None \<Rightarrow> False
         | Some checkOtherwise \<Rightarrow>
             if checkOtherwise
             then (case otherwise this of
                     Some ow \<Rightarrow>
                       if \<not> filterMatchesSingleElement L (getFilter ow) item then False
                       else matchesObject L this rest
                   | None \<Rightarrow>
                       if \<not> boolOtherwise this then False
                       else matchesObject L this rest)
             else matchesObject L this rest)"

text \<open>\<open>matchesSingleElement\<close>: the entry point for one tagged value.\<close>

definition matchesSingleElement ::
  "('e, 't) MatchLibrary \<Rightarrow> ('e, 't) AllowedProperties \<Rightarrow> BSONElement \<Rightarrow> bool" where
  "matchesSingleElement L this elem =
     (if elemType elem \<noteq> Object then False
      else matchesObject L this (embeddedObject elem))"

text \<open>
  \<open>matches\<close>: the entry point for a whole document. A \<open>MatchableDocument\<close> is given by the
  document its \<open>toBSON()\<close> returns.
\<close>

definition matches ::
  "('e, 't) MatchLibrary \<Rightarrow> ('e, 't) AllowedProperties \<Rightarrow> BSONObj \<Rightarrow> bool" where
  "matches L this doc = matchesObject L this doc"

subsection \<open>Equivalence\<close>

text \<open>
  \<open>std::is_permutation\<close> on two vectors with a binary predicate, as the standard library
  (libstdc++) implements it: ranges of different lengths are no permutations; the common
  prefix is skipped (\<open>mismatch\<close>); then every element of the first rest that no earlier
  element of that rest is related to must be related to as many elements of the second rest
  as of the first. The predicate is applied to (candidate, scanned element). The standard
  leaves the result open unless the predicate is an equivalence relation.
\<close>

fun mismatch :: "('a \<Rightarrow> 'a \<Rightarrow> bool) \<Rightarrow> 'a list \<Rightarrow> 'a list \<Rightarrow> 'a list \<times> 'a list" where
  "mismatch pred (x # xs) (y # ys) =
     (if pred x y then mismatch pred xs ys else (x # xs, y # ys))"
| "mismatch pred xs ys = (xs, ys)"

definition count_if :: "('a \<Rightarrow> bool) \<Rightarrow> 'a list \<Rightarrow> nat" where
  "count_if p xs = length (filter p xs)"

fun permutationScan :: "('a \<Rightarrow> 'a \<Rightarrow> bool) \<Rightarrow> 'a list \<Rightarrow> 'a list \<Rightarrow> 'a list \<Rightarrow> bool" where
  "permutationScan pred seen [] ys = True"
| "permutationScan pred seen (scan # rest) ys =
     (if list_ex (\<lambda>x. pred x scan) seen
      then permutationScan pred (seen @ [scan]) rest ys
      else (let matches = count_if (\<lambda>y. pred y scan) ys in
            if matches = 0 \<or> count_if (\<lambda>x. pred x scan) (scan # rest) \<noteq> matches then False
            else permutationScan pred (seen @ [scan]) rest ys))"

definition is_permutation :: "('a \<Rightarrow> 'a \<Rightarrow> bool) \<Rightarrow> 'a list \<Rightarrow> 'a list \<Rightarrow> bool" where
  "is_permutation pred xs ys =
     (if length xs \<noteq> length ys then False
      else (case mismatch pred xs ys of
              (xs', ys') \<Rightarrow> if xs' = [] then True else permutationScan pred [] xs' ys'))"

text \<open>The lambda that \<open>equivalent\<close> hands to \<open>std::is_permutation\<close>.\<close>

definition patternElemEquivalent ::
  "('e, 't) MatchLibrary \<Rightarrow> 'e PatternElem \<Rightarrow> 'e PatternElem \<Rightarrow> bool" where
  "patternElemEquivalent L expr1 expr2 =
     (filterEquivalent L (getFilter (snd expr1)) (getFilter (snd expr2)) \<and>
      serializedRegex (fst expr1) = serializedRegex (fst expr2))"

text \<open>
  The argument of \<open>equivalent\<close> is any match expression: an AllowedProperties node, or a
  node of another \<open>matchType()\<close>.
\<close>

datatype ('e, 't) AnyMatchExpression =
    AllowedPropertiesExpression "('e, 't) AllowedProperties"
  | OtherMatchExpression 'e

text \<open>
  The condition of the second early return of \<open>equivalent\<close>. When \<open>_otherwise\<close> of the
  receiver is set, the source calls \<open>getFilter()\<close> through \<open>realOther->_otherwise\<close> without
  testing it.
\<close>

definition otherwiseDiffers ::
  "('e, 't) MatchLibrary \<Rightarrow> ('e, 't) AllowedProperties \<Rightarrow> ('e, 't) AllowedProperties \<Rightarrow>
   Failure + bool" where
  "otherwiseDiffers L this realOther =
     (case otherwise this of
        Some ow \<Rightarrow>
          (case otherwise realOther of
             None \<Rightarrow> Inl NullPointerDereference
           | Some ow' \<Rightarrow>
               Inr (\<not> filterEquivalent L (getFilter ow) (getFilter ow') \<or>
                    getPlaceholder ow \<noteq> getPlaceholder ow'))
      | None \<Rightarrow> Inr (boolOtherwise this \<noteq> boolOtherwise realOther))"

definition equivalent ::
  "('e, 't) MatchLibrary \<Rightarrow> ('e, 't) AllowedProperties \<Rightarrow> ('e, 't) AnyMatchExpression \<Rightarrow>
   Failure + bool" where
  "equivalent L this other =
     (case other of
        OtherMatchExpression _ \<Rightarrow> Inr False
      | AllowedPropertiesExpression realOther \<Rightarrow>
          if \<not> samePropertiesSet (properties this) (properties realOther) then Inr False
          else (case otherwiseDiffers L this realOther of
                  Inl f \<Rightarrow> Inl f
                | Inr differs \<Rightarrow>
                    if differs then Inr False
                    else if namePlaceholder this \<noteq> namePlaceholder realOther then Inr False
                    else Inr (is_permutation (patternElemEquivalent L)
                                (patternProperties this) (patternProperties realOther))))"

subsection \<open>Cloning\<close>

text \<open>
  \<open>shallowClone\<close> is a const member function: \<open>std::move\<close> of a member of a const object
  selects the copy constructor, so the receiver keeps its members. The result is the
  receiver after the call and the new node.
\<close>

definition clonePatternElem :: "('e, 't) MatchLibrary \<Rightarrow> 'e PatternElem \<Rightarrow> 'e PatternElem" where
  "clonePatternElem L elem =
     (cloneRegex (fst elem),
      \<lparr>getPlaceholder = getPlaceholder (snd elem),
       getFilter = filterShallowClone L (getFilter (snd elem))\<rparr>)"

definition shallowClone ::
  "('e, 't) MatchLibrary \<Rightarrow> ('e, 't) AllowedProperties \<Rightarrow>
   Failure + (('e, 't) AllowedProperties \<times> ('e, 't) AllowedProperties)" where
  "shallowClone L this =
     (let newExpression =
            (case tag this of
               Some t \<Rightarrow> newAllowedProperties\<lparr>tag := Some (tagClone L t)\<rparr>
             | None \<Rightarrow> newAllowedProperties);
          clonedExpressions = map (clonePatternElem L) (patternProperties this)
      in case (case otherwise this of
                 Some ow \<Rightarrow>
                   initExpression newExpression (properties this) clonedExpressions
                     (Some \<lparr>getPlaceholder = getPlaceholder ow,
                            getFilter = filterShallowClone L (getFilter ow)\<rparr>)
                     (namePlaceholder this)
               | None \<Rightarrow>
                   initBool newExpression (properties this) clonedExpressions
                     (boolOtherwise this) (namePlaceholder this)) of
           Inl f \<Rightarrow> Inl f
         | Inr initialised \<Rightarrow> Inr (this, initialised))"

subsection \<open>Serialization\<close>

abbreviation kName :: string where "kName \<equiv> ''$_internalSchemaAllowedProperties''"
abbreviation kProperties :: string where "kProperties \<equiv> ''properties''"
abbreviation kPatternProperties :: string where "kPatternProperties \<equiv> ''patternProperties''"
abbreviation kOtherwise :: string where "kOtherwise \<equiv> ''otherwise''"
abbreviation kNamePlaceholder :: string where "kNamePlaceholder \<equiv> ''namePlaceholder''"

text \<open>
  A builder is the list of fields written so far. An array builder names each appended
  value by its index, in decimal.
\<close>

fun decimal :: "nat \<Rightarrow> string" where
  "decimal n =
     (if n < 10 then [''0123456789'' ! n]
      else decimal (n div 10) @ [''0123456789'' ! (n mod 10)])"

definition arrayAppend :: "BSONObj \<Rightarrow> BSONValue \<Rightarrow> BSONObj" where
  "arrayAppend builder v = builder @ [(decimal (length builder), v)]"

fun appendPropertiesLoop :: "BSONObj \<Rightarrow> string list \<Rightarrow> BSONObj" where
  "appendPropertiesLoop propBob [] = propBob"
| "appendPropertiesLoop propBob (prop # rest) =
     appendPropertiesLoop (arrayAppend propBob (StringValue prop)) rest"

fun appendPatternsLoop ::
  "('e, 't) MatchLibrary \<Rightarrow> BSONObj \<Rightarrow> 'e PatternArray \<Rightarrow> BSONObj" where
  "appendPatternsLoop L patternPropBob [] = patternPropBob"
| "appendPatternsLoop L patternPropBob (item # rest) =
     (let objBuilder = [(''regex'', RegExValue (serializedRegex (fst item)) [])];
          subBob = filterSerialize L (getFilter (snd item)) [];
          objBuilder = objBuilder @ [(''expression'', ObjectValue subBob)]
      in appendPatternsLoop L (arrayAppend patternPropBob (ObjectValue objBuilder)) rest)"

definition serialize ::
  "('e, 't) MatchLibrary \<Rightarrow> ('e, 't) AllowedProperties \<Rightarrow> BSONObj \<Rightarrow> BSONObj" where
  "serialize L this out =
     (let allowedPropBob = [];
          propBob = appendPropertiesLoop [] (properties this);
          allowedPropBob = allowedPropBob @ [(kProperties, ArrayValue propBob)];
          allowedPropBob = allowedPropBob @ [(kNamePlaceholder, StringValue (namePlaceholder this))];
          patternPropBob = appendPatternsLoop L [] (patternProperties this);
          allowedPropBob = allowedPropBob @ [(kPatternProperties, ArrayValue patternPropBob)];
          allowedPropBob =
            (case otherwise this of
               Some ow \<Rightarrow>
                 allowedPropBob @
                   [(kOtherwise, ObjectValue (filterSerialize L (getFilter ow) []))]
             | None \<Rightarrow> allowedPropBob @ [(kOtherwise, BoolValue (boolOtherwise this))])
      in out @ [(kName, ObjectValue allowedPropBob)])"

section \<open>The schema compiler\<close>

subsection \<open>Match nodes and the library behind them\<close>

text \<open>
  \<open>TypeMatchExpression::Type\<close> is a tag together with the flag "any numeric type";
  a \<open>BSONType\<close> converts to it with the flag unset. The compiler builds the nodes below. Their
  \<open>init\<close> functions, the alias table of \<open>$type\<close>, the integer parser, the tag a
  default-constructed \<open>Type\<close> holds and the printed name of a tag belong to the
  match-expression library; the model takes them as parameters (\<open>SchemaLibrary\<close>). An
  \<open>init\<close> returns \<open>None\<close> for \<open>Status::OK()\<close>.
\<close>

record Type =
  allNumbers :: bool
  bsonType :: BSONType

definition typeOfBSONType :: "BSONType \<Rightarrow> Type" where
  "typeOfBSONType t = \<lparr>allNumbers = False, bsonType = t\<rparr>"

record TypeMatchExpression =
  typePath :: string
  typeSpec :: Type

definition matchesAllNumbers :: "TypeMatchExpression \<Rightarrow> bool" where
  "matchesAllNumbers t = allNumbers (typeSpec t)"

definition getBSONType :: "TypeMatchExpression \<Rightarrow> BSONType" where
  "getBSONType t = bsonType (typeSpec t)"

datatype MatchExpression =
    AlwaysTrueMatchExpression
  | AlwaysFalseMatchExpression
  | AndMatchExpression "MatchExpression list"
  | OrMatchExpression "MatchExpression list"
  | NotMatchExpression MatchExpression
  | InternalSchemaXorMatchExpression "MatchExpression list"
  | ExistsMatchExpression string
  | TypeExpression TypeMatchExpression
  | LTMatchExpression string BSONElement
  | LTEMatchExpression string BSONElement
  | GTMatchExpression string BSONElement
  | GTEMatchExpression string BSONElement
  | RegexMatchExpression string string string
  | InternalSchemaMaxLengthMatchExpression string int
  | InternalSchemaMinLengthMatchExpression string int
  | InternalSchemaObjectMatchExpression MatchExpression string

fun path :: "MatchExpression \<Rightarrow> string" where
  "path (ExistsMatchExpression p) = p"
| "path (TypeExpression t) = typePath t"
| "path (LTMatchExpression p _) = p"
| "path (LTEMatchExpression p _) = p"
| "path (GTMatchExpression p _) = p"
| "path (GTEMatchExpression p _) = p"
| "path (RegexMatchExpression p _ _) = p"
| "path (InternalSchemaMaxLengthMatchExpression p _) = p"
| "path (InternalSchemaMinLengthMatchExpression p _) = p"
| "path (InternalSchemaObjectMatchExpression _ p) = p"
| "path _ = []"

record SchemaLibrary =
  parseTypeFromAlias :: "string \<Rightarrow> string \<Rightarrow> Failure + TypeMatchExpression"
  parseIntegerElementToNonNegativeLong :: "BSONElement \<Rightarrow> Failure + int"
  defaultBSONType :: BSONType
  typeName :: "BSONType \<Rightarrow> string"
  comparisonInit :: "string \<Rightarrow> BSONElement \<Rightarrow> Failure option"
  strLengthInit :: "string \<Rightarrow> int \<Rightarrow> Failure option"
  regexInit :: "string \<Rightarrow> string \<Rightarrow> string \<Rightarrow> Failure option"
  objectMatchInit :: "MatchExpression \<Rightarrow> string \<Rightarrow> Failure option"
  notInit :: "MatchExpression \<Rightarrow> Failure option"
  typeInit :: "string \<Rightarrow> Type \<Rightarrow> Failure option"
  existsInit :: "string \<Rightarrow> Failure option"

subsection \<open>Keyword parsers\<close>

abbreviation kSchemaAllOfKeyword :: string where "kSchemaAllOfKeyword \<equiv> ''allOf''"
abbreviation kSchemaAnyOfKeyword :: string where "kSchemaAnyOfKeyword \<equiv> ''anyOf''"
abbreviation kSchemaExclusiveMaximumKeyword :: string where
  "kSchemaExclusiveMaximumKeyword \<equiv> ''exclusiveMaximum''"
abbreviation kSchemaExclusiveMinimumKeyword :: string where
  "kSchemaExclusiveMinimumKeyword \<equiv> ''exclusiveMinimum''"
abbreviation kSchemaMaximumKeyword :: string where "kSchemaMaximumKeyword \<equiv> ''maximum''"
abbreviation kSchemaMinimumKeyword :: string where "kSchemaMinimumKeyword \<equiv> ''minimum''"
abbreviation kSchemaMaxLengthKeyword :: string where "kSchemaMaxLengthKeyword \<equiv> ''maxLength''"
abbreviation kSchemaMinLengthKeyword :: string where "kSchemaMinLengthKeyword \<equiv> ''minLength''"
abbreviation kSchemaNotKeyword :: string where "kSchemaNotKeyword \<equiv> ''not''"
abbreviation kSchemaOneOfKeyword :: string where "kSchemaOneOfKeyword \<equiv> ''oneOf''"
abbreviation kSchemaPatternKeyword :: string where "kSchemaPatternKeyword \<equiv> ''pattern''"
abbreviation kSchemaPropertiesKeyword :: string where "kSchemaPropertiesKeyword \<equiv> ''properties''"
abbreviation kSchemaTypeKeyword :: string where "kSchemaTypeKeyword \<equiv> ''type''"

definition makeRestriction ::
  "SchemaLibrary \<Rightarrow> Type \<Rightarrow> MatchExpression \<Rightarrow> TypeMatchExpression option \<Rightarrow>
   Failure + MatchExpression" where
  "makeRestriction P restrictionType restrictionExpr statedType =
     (if (case statedType of
            None \<Rightarrow> False
          | Some st \<Rightarrow>
              (let bothNumeric = (allNumbers restrictionType \<and>
                     (matchesAllNumbers st \<or> isNumericBSONType (getBSONType st)));
                   bsonTypesMatch = (bsonType restrictionType = getBSONType st)
               in \<not> bothNumeric \<and> \<not> bsonTypesMatch))
      then Inr AlwaysTrueMatchExpression
      else (case typeInit P (path restrictionExpr) restrictionType of
              Some _ \<Rightarrow> Inl InvariantFailure
            | None \<Rightarrow>
                Inr (OrMatchExpression
                  [NotMatchExpression (TypeExpression
                     \<lparr>typePath = path restrictionExpr, typeSpec = restrictionType\<rparr>),
                   restrictionExpr])))"

definition makeTypeRestriction ::
  "SchemaLibrary \<Rightarrow> TypeMatchExpression option \<Rightarrow> Failure + MatchExpression" where
  "makeTypeRestriction P typeExpr =
     (case typeExpr of
        None \<Rightarrow> Inl InvariantFailure
      | Some t \<Rightarrow>
          if typePath t = [] then Inl InvariantFailure
          else (case existsInit P (typePath t) of
                  Some _ \<Rightarrow> Inl InvariantFailure
                | None \<Rightarrow>
                    Inr (OrMatchExpression
                      [NotMatchExpression (ExistsMatchExpression (typePath t)),
                       TypeExpression t])))"

fun valueStringData :: "BSONElement \<Rightarrow> string" where
  "valueStringData (_, StringValue s) = s"
| "valueStringData _ = []"

fun boolean :: "BSONElement \<Rightarrow> bool" where
  "boolean (_, BoolValue b) = b"
| "boolean _ = False"

definition keywordMessage :: "string \<Rightarrow> string \<Rightarrow> string" where
  "keywordMessage keyword rest =
     ''$jsonSchema keyword '' @ [CHR 0x27] @ keyword @ [CHR 0x27] @ rest"

definition parseType ::
  "SchemaLibrary \<Rightarrow> string \<Rightarrow> BSONElement option \<Rightarrow> Failure + TypeMatchExpression option" where
  "parseType P pth typeElt =
     (case typeElt of
        None \<Rightarrow> Inr None
      | Some elt \<Rightarrow>
          if elemType elt \<noteq> String
          then Inl (Status TypeMismatch
                 (keywordMessage kSchemaTypeKeyword '' must be a string''))
          else (case parseTypeFromAlias P pth (valueStringData elt) of
                  Inl f \<Rightarrow> Inl f
                | Inr t \<Rightarrow> Inr (Some t)))"

definition parseMaximum ::
  "SchemaLibrary \<Rightarrow> string \<Rightarrow> BSONElement \<Rightarrow> TypeMatchExpression option \<Rightarrow> bool \<Rightarrow>
   Failure + MatchExpression" where
  "parseMaximum P pth maximum typeExpr isExclusiveMaximum =
     (if \<not> isNumber maximum
      then Inl (Status TypeMismatch
             (keywordMessage kSchemaMaximumKeyword '' must be a number''))
      else if pth = [] then Inr AlwaysTrueMatchExpression
      else (let expr = (if isExclusiveMaximum then LTMatchExpression pth maximum
                        else LTEMatchExpression pth maximum)
            in case comparisonInit P pth maximum of
                 Some status \<Rightarrow> Inl status
               | None \<Rightarrow>
                   makeRestriction P \<lparr>allNumbers = True, bsonType = defaultBSONType P\<rparr>
                     expr typeExpr))"

definition parseMinimum ::
  "SchemaLibrary \<Rightarrow> string \<Rightarrow> BSONElement \<Rightarrow> TypeMatchExpression option \<Rightarrow> bool \<Rightarrow>
   Failure + MatchExpression" where
  "parseMinimum P pth minimum typeExpr isExclusiveMinimum =
     (if \<not> isNumber minimum
      then Inl (Status TypeMismatch
             (keywordMessage kSchemaMinimumKeyword '' must be a number''))
      else if pth = [] then Inr AlwaysTrueMatchExpression
      else (let expr = (if isExclusiveMinimum then GTMatchExpression pth minimum
                        else GTEMatchExpression pth minimum)
            in case comparisonInit P pth minimum of
                 Some status \<Rightarrow> Inl status
               | None \<Rightarrow>
                   makeRestriction P \<lparr>allNumbers = True, bsonType = defaultBSONType P\<rparr>
                     expr typeExpr))"

definition parseStrLength ::
  "(string \<Rightarrow> int \<Rightarrow> MatchExpression) \<Rightarrow> SchemaLibrary \<Rightarrow> string \<Rightarrow> BSONElement \<Rightarrow>
   TypeMatchExpression option \<Rightarrow> string \<Rightarrow> Failure + MatchExpression" where
  "parseStrLength T P pth strLength typeExpr keyword =
     (if \<not> isNumber strLength
      then Inl (Status TypeMismatch
             (keywordMessage keyword '' must be a number''))
      else (case parseIntegerElementToNonNegativeLong P strLength of
              Inl status \<Rightarrow> Inl status
            | Inr n \<Rightarrow>
                if pth = [] then Inr AlwaysTrueMatchExpression
                else (case strLengthInit P pth n of
                        Some status \<Rightarrow> Inl status
                      | None \<Rightarrow> makeRestriction P (typeOfBSONType String) (T pth n) typeExpr)))"

definition parsePattern ::
  "SchemaLibrary \<Rightarrow> string \<Rightarrow> BSONElement \<Rightarrow> TypeMatchExpression option \<Rightarrow>
   Failure + MatchExpression" where
  "parsePattern P pth pattern typeExpr =
     (if elemType pattern \<noteq> String
      then Inl (Status TypeMismatch
             (keywordMessage kSchemaPatternKeyword '' must be a string''))
      else if pth = [] then Inr AlwaysTrueMatchExpression
      else (let emptyFlags = [] in
            case regexInit P pth (valueStringData pattern) emptyFlags of
              Some status \<Rightarrow> Inl status
            | None \<Rightarrow>
                makeRestriction P (typeOfBSONType String)
                  (RegexMatchExpression pth (valueStringData pattern) emptyFlags) typeExpr))"



subsection \<open>The recursive compiler\<close>

text \<open>
  The keyword map of \<open>_parse\<close>: every recognised keyword is a key from the start, mapped
  to the empty element (\<open>None\<close>) until the schema supplies one.
\<close>

type_synonym KeywordMap = "string \<Rightarrow> BSONElement option option"

definition initialKeywordMap :: KeywordMap where
  "initialKeywordMap =
     [kSchemaTypeKeyword \<mapsto> None,
      kSchemaPropertiesKeyword \<mapsto> None,
      kSchemaMaximumKeyword \<mapsto> None,
      kSchemaMinimumKeyword \<mapsto> None,
      kSchemaExclusiveMaximumKeyword \<mapsto> None,
      kSchemaExclusiveMinimumKeyword \<mapsto> None,
      kSchemaMaxLengthKeyword \<mapsto> None,
      kSchemaMinLengthKeyword \<mapsto> None,
      kSchemaPatternKeyword \<mapsto> None,
      kSchemaAllOfKeyword \<mapsto> None,
      kSchemaAnyOfKeyword \<mapsto> None,
      kSchemaOneOfKeyword \<mapsto> None,
      kSchemaNotKeyword \<mapsto> None]"

fun fillKeywordMap :: "BSONObj \<Rightarrow> KeywordMap \<Rightarrow> Failure + KeywordMap" where
  "fillKeywordMap [] keywordMap = Inr keywordMap"
| "fillKeywordMap (elt # rest) keywordMap =
     (case keywordMap (fieldName elt) of
        None \<Rightarrow>
          Inl (Status FailedToParse (''Unknown $jsonSchema keyword: '' @ fieldName elt))
      | Some (Some _) \<Rightarrow>
          Inl (Status FailedToParse (''Duplicate $jsonSchema keyword: '' @ fieldName elt))
      | Some None \<Rightarrow> fillKeywordMap rest (keywordMap(fieldName elt \<mapsto> Some elt)))"

definition lookupKeyword :: "KeywordMap \<Rightarrow> string \<Rightarrow> BSONElement option" where
  "lookupKeyword keywordMap keyword =
     (case keywordMap keyword of Some elt \<Rightarrow> elt | None \<Rightarrow> None)"

text \<open>
  \<open>_parseLogicalOf\<close> receives its keyword as a string; its callers pass one of three
  constants, which the model makes a type.
\<close>

datatype LogicalKeyword = AllOf | AnyOf | OneOf

fun logicalKeywordName :: "LogicalKeyword \<Rightarrow> string" where
  "logicalKeywordName AllOf = kSchemaAllOfKeyword"
| "logicalKeywordName AnyOf = kSchemaAnyOfKeyword"
| "logicalKeywordName OneOf = kSchemaOneOfKeyword"

text \<open>
  The blocks of \<open>_parse\<close> for the keywords that need no recursion, each giving the
  children it adds to the conjunction.
\<close>

definition maximumBlock ::
  "SchemaLibrary \<Rightarrow> string \<Rightarrow> KeywordMap \<Rightarrow> TypeMatchExpression option \<Rightarrow>
   Failure + MatchExpression list" where
  "maximumBlock P pth keywordMap typeExpr =
     (case lookupKeyword keywordMap kSchemaMaximumKeyword of
        Some maximumElt \<Rightarrow>
          (case (case lookupKeyword keywordMap kSchemaExclusiveMaximumKeyword of
                   Some exclusiveMaximumElt \<Rightarrow>
                     if \<not> isBoolean exclusiveMaximumElt
                     then Inl (Status TypeMismatch
                            (keywordMessage kSchemaExclusiveMaximumKeyword '' must be a boolean''))
                     else Inr (boolean exclusiveMaximumElt)
                 | None \<Rightarrow> Inr False) of
             Inl f \<Rightarrow> Inl f
           | Inr isExclusiveMaximum \<Rightarrow>
               (case parseMaximum P pth maximumElt typeExpr isExclusiveMaximum of
                  Inl f \<Rightarrow> Inl f
                | Inr maxExpr \<Rightarrow> Inr [maxExpr]))
      | None \<Rightarrow>
          (case lookupKeyword keywordMap kSchemaExclusiveMaximumKeyword of
             Some _ \<Rightarrow>
               Inl (Status FailedToParse
                 (keywordMessage kSchemaMaximumKeyword
                    ('' must be a present if '' @ kSchemaExclusiveMaximumKeyword @ '' is present'')))
           | None \<Rightarrow> Inr []))"

definition minimumBlock ::
  "SchemaLibrary \<Rightarrow> string \<Rightarrow> KeywordMap \<Rightarrow> TypeMatchExpression option \<Rightarrow>
   Failure + MatchExpression list" where
  "minimumBlock P pth keywordMap typeExpr =
     (case lookupKeyword keywordMap kSchemaMinimumKeyword of
        Some minimumElt \<Rightarrow>
          (case (case lookupKeyword keywordMap kSchemaExclusiveMinimumKeyword of
                   Some exclusiveMinimumElt \<Rightarrow>
                     if \<not> isBoolean exclusiveMinimumElt
                     then Inl (Status TypeMismatch
                            (keywordMessage kSchemaExclusiveMinimumKeyword '' must be a boolean''))
                     else Inr (boolean exclusiveMinimumElt)
                 | None \<Rightarrow> Inr False) of
             Inl f \<Rightarrow> Inl f
           | Inr isExclusiveMinimum \<Rightarrow>
               (case parseMinimum P pth minimumElt typeExpr isExclusiveMinimum of
                  Inl f \<Rightarrow> Inl f
                | Inr minExpr \<Rightarrow> Inr [minExpr]))
      | None \<Rightarrow>
          (case lookupKeyword keywordMap kSchemaExclusiveMinimumKeyword of
             Some _ \<Rightarrow>
               Inl (Status FailedToParse
                 (keywordMessage kSchemaMinimumKeyword
                    ('' must be a present if '' @ kSchemaExclusiveMinimumKeyword @ '' is present'')))
           | None \<Rightarrow> Inr []))"

definition strLengthBlock ::
  "(string \<Rightarrow> int \<Rightarrow> MatchExpression) \<Rightarrow> SchemaLibrary \<Rightarrow> string \<Rightarrow> KeywordMap \<Rightarrow>
   TypeMatchExpression option \<Rightarrow> string \<Rightarrow> Failure + MatchExpression list" where
  "strLengthBlock T P pth keywordMap typeExpr keyword =
     (case lookupKeyword keywordMap keyword of
        Some lengthElt \<Rightarrow>
          (case parseStrLength T P pth lengthElt typeExpr keyword of
             Inl f \<Rightarrow> Inl f
           | Inr lengthExpr \<Rightarrow> Inr [lengthExpr])
      | None \<Rightarrow> Inr [])"

definition patternBlock ::
  "SchemaLibrary \<Rightarrow> string \<Rightarrow> KeywordMap \<Rightarrow> TypeMatchExpression option \<Rightarrow>
   Failure + MatchExpression list" where
  "patternBlock P pth keywordMap typeExpr =
     (case lookupKeyword keywordMap kSchemaPatternKeyword of
        Some patternElt \<Rightarrow>
          (case parsePattern P pth patternElt typeExpr of
             Inl f \<Rightarrow> Inl f
           | Inr patternExpr \<Rightarrow> Inr [patternExpr])
      | None \<Rightarrow> Inr [])"

text \<open>
  \<open>_parse\<close> (here \<open>parse'\<close>) with \<open>_parseProperties\<close>, \<open>_parseLogicalOf\<close> and
  \<open>_parseNot\<close>; the loops over the elements of a nested object are functions of their own.
  Every recursive call is on an object nested in the schema, which the termination proof
  makes precise.
\<close>

lemma fillKeywordMap_lookup:
  "fillKeywordMap schema keywordMap = Inr keywordMap' \<Longrightarrow>
   lookupKeyword keywordMap' keyword = Some elt \<Longrightarrow>
   elt \<in> set schema \<or> lookupKeyword keywordMap keyword = Some elt"
proof (induction schema arbitrary: keywordMap)
  case Nil
  then show ?case by simp
next
  case (Cons e rest)
  from Cons.prems(1) have present: "keywordMap (fieldName e) = Some None"
    by (auto split: option.splits)
  with Cons.prems(1) have "fillKeywordMap rest (keywordMap(fieldName e \<mapsto> Some e)) = Inr keywordMap'"
    by simp
  from Cons.IH[OF this Cons.prems(2)]
  show ?case
    by (auto simp: lookupKeyword_def split: if_splits)
qed

lemma lookupKeyword_initial: "lookupKeyword initialKeywordMap keyword = None"
  by (simp add: lookupKeyword_def initialKeywordMap_def)

lemma keyword_element_of_schema:
  "fillKeywordMap schema initialKeywordMap = Inr keywordMap \<Longrightarrow>
   lookupKeyword keywordMap keyword = Some elt \<Longrightarrow> elt \<in> set schema"
  using fillKeywordMap_lookup[of schema initialKeywordMap keywordMap keyword elt]
  by (simp add: lookupKeyword_initial)

lemma size_field_less: "elt \<in> set obj \<Longrightarrow> size (snd elt) < size (ObjectValue obj)"
proof -
  assume "elt \<in> set obj"
  then have "size_prod (\<lambda>_. 0) size elt \<le> size_list (size_prod (\<lambda>_. 0) size) obj"
    by (rule size_list_estimation') simp
  then show ?thesis by (cases elt) simp
qed

lemma keyword_element_measure:
  "fillKeywordMap schema initialKeywordMap = Inr keywordMap \<Longrightarrow>
   lookupKeyword keywordMap keyword = Some elt \<Longrightarrow>
   2 * size (snd elt) + 1 < 2 * size (ObjectValue schema)"
  using size_field_less[OF keyword_element_of_schema, of schema keywordMap keyword elt]
  by simp

lemma size_embeddedObject:
  "elemType elt = Object \<or> elemType elt = Array \<Longrightarrow>
   size (ObjectValue (embeddedObject elt)) = size (snd elt)"
  by (cases elt; cases "snd elt") (auto simp: elemType_def)

function
  parse' :: "SchemaLibrary \<Rightarrow> string \<Rightarrow> BSONObj \<Rightarrow> Failure + MatchExpression"
and parseProperties ::
  "SchemaLibrary \<Rightarrow> string \<Rightarrow> BSONElement \<Rightarrow> TypeMatchExpression option \<Rightarrow>
   Failure + MatchExpression"
and parsePropertiesLoop :: "SchemaLibrary \<Rightarrow> BSONObj \<Rightarrow> Failure + MatchExpression list"
and parseLogicalOf ::
  "SchemaLibrary \<Rightarrow> string \<Rightarrow> BSONElement \<Rightarrow> TypeMatchExpression option \<Rightarrow>
   LogicalKeyword \<Rightarrow> Failure + MatchExpression"
and parseLogicalOfLoop ::
  "SchemaLibrary \<Rightarrow> LogicalKeyword \<Rightarrow> BSONObj \<Rightarrow> Failure + MatchExpression list"
and parseNot ::
  "SchemaLibrary \<Rightarrow> string \<Rightarrow> BSONElement \<Rightarrow> TypeMatchExpression option \<Rightarrow>
   Failure + MatchExpression"
where
  "parse' P pth schema =
     (case fillKeywordMap schema initialKeywordMap of
        Inl f \<Rightarrow> Inl f
      | Inr keywordMap \<Rightarrow>
     (case parseType P pth (lookupKeyword keywordMap kSchemaTypeKeyword) of
        Inl f \<Rightarrow> Inl f
      | Inr typeExpr \<Rightarrow>
     (case (case lookupKeyword keywordMap kSchemaPropertiesKeyword of
              Some propertiesElt \<Rightarrow>
                (case parseProperties P pth propertiesElt typeExpr of
                   Inl f \<Rightarrow> Inl f
                 | Inr propertiesExpr \<Rightarrow> Inr [propertiesExpr])
            | None \<Rightarrow> Inr []) of
        Inl f \<Rightarrow> Inl f
      | Inr and1 \<Rightarrow>
     (case maximumBlock P pth keywordMap typeExpr of
        Inl f \<Rightarrow> Inl f
      | Inr and2 \<Rightarrow>
     (case minimumBlock P pth keywordMap typeExpr of
        Inl f \<Rightarrow> Inl f
      | Inr and3 \<Rightarrow>
     (case strLengthBlock InternalSchemaMaxLengthMatchExpression P pth keywordMap typeExpr
             kSchemaMaxLengthKeyword of
        Inl f \<Rightarrow> Inl f
      | Inr and4 \<Rightarrow>
     (case strLengthBlock InternalSchemaMinLengthMatchExpression P pth keywordMap typeExpr
             kSchemaMinLengthKeyword of
        Inl f \<Rightarrow> Inl f
      | Inr and5 \<Rightarrow>
     (case patternBlock P pth keywordMap typeExpr of
        Inl f \<Rightarrow> Inl f
      | Inr and6 \<Rightarrow>
     (case (case lookupKeyword keywordMap kSchemaAllOfKeyword of
              Some allOfElt \<Rightarrow>
                (case parseLogicalOf P pth allOfElt typeExpr AllOf of
                   Inl f \<Rightarrow> Inl f
                 | Inr allOfExpr \<Rightarrow> Inr [allOfExpr])
            | None \<Rightarrow> Inr []) of
        Inl f \<Rightarrow> Inl f
      | Inr and7 \<Rightarrow>
     (case (case lookupKeyword keywordMap kSchemaAnyOfKeyword of
              Some anyOfElt \<Rightarrow>
                (case parseLogicalOf P pth anyOfElt typeExpr AnyOf of
                   Inl f \<Rightarrow> Inl f
                 | Inr anyOfExpr \<Rightarrow> Inr [anyOfExpr])
            | None \<Rightarrow> Inr []) of
        Inl f \<Rightarrow> Inl f
      | Inr and8 \<Rightarrow>
     (case (case lookupKeyword keywordMap kSchemaOneOfKeyword of
              Some oneOfElt \<Rightarrow>
                (case parseLogicalOf P pth oneOfElt typeExpr OneOf of
                   Inl f \<Rightarrow> Inl f
                 | Inr oneOfExpr \<Rightarrow> Inr [oneOfExpr])
            | None \<Rightarrow> Inr []) of
        Inl f \<Rightarrow> Inl f
      | Inr and9 \<Rightarrow>
     (case (case lookupKeyword keywordMap kSchemaNotKeyword of
              Some notElt \<Rightarrow>
                (case parseNot P pth notElt typeExpr of
                   Inl f \<Rightarrow> Inl f
                 | Inr notExpr \<Rightarrow> Inr [notExpr])
            | None \<Rightarrow> Inr []) of
        Inl f \<Rightarrow> Inl f
      | Inr and10 \<Rightarrow>
          (let andExpr = and1 @ and2 @ and3 @ and4 @ and5 @ and6 @ and7 @ and8 @ and9 @ and10
           in if pth = [] \<and> (case typeExpr of Some t \<Rightarrow> getBSONType t \<noteq> Object | None \<Rightarrow> False)
              then Inr AlwaysFalseMatchExpression
              else if pth \<noteq> [] \<and> typeExpr \<noteq> None
              then (case makeTypeRestriction P typeExpr of
                      Inl f \<Rightarrow> Inl f
                    | Inr typeRestriction \<Rightarrow> Inr (AndMatchExpression (andExpr @ [typeRestriction])))
              else Inr (AndMatchExpression andExpr))))))))))))))"
| "parseProperties P pth propertiesElt typeExpr =
     (if elemType propertiesElt \<noteq> Object
      then Inl (Status TypeMismatch (keywordMessage kSchemaPropertiesKeyword '' must be an object''))
      else (case parsePropertiesLoop P (embeddedObject propertiesElt) of
              Inl f \<Rightarrow> Inl f
            | Inr children \<Rightarrow>
                (let andExpr = AndMatchExpression children in
                 if pth = [] then Inr andExpr
                 else (case objectMatchInit P andExpr pth of
                         Some objectMatchStatus \<Rightarrow> Inl objectMatchStatus
                       | None \<Rightarrow>
                           makeRestriction P (typeOfBSONType Object)
                             (InternalSchemaObjectMatchExpression andExpr pth) typeExpr))))"
| "parsePropertiesLoop P [] = Inr []"
| "parsePropertiesLoop P (property # rest) =
     (if elemType property \<noteq> Object
      then Inl (Status TypeMismatch
             (''Nested schema for $jsonSchema property '' @ [CHR 0x27] @ fieldName property @
              [CHR 0x27] @ '' must be an object''))
      else (case parse' P (fieldName property) (embeddedObject property) of
              Inl f \<Rightarrow> Inl f
            | Inr nestedSchemaMatch \<Rightarrow>
                (case parsePropertiesLoop P rest of
                   Inl f \<Rightarrow> Inl f
                 | Inr children \<Rightarrow> Inr (nestedSchemaMatch # children))))"
| "parseLogicalOf P pth logicalOf typeExpr keyword =
     (if elemType logicalOf \<noteq> Array
      then Inl (Status TypeMismatch
             (keywordMessage (logicalKeywordName keyword) '' must be an array''))
      else (let logicalOfObj = embeddedObject logicalOf in
            if logicalOfObj = [] then Inl (Status BadValue '' must be a nonempty array'')
            else (case parseLogicalOfLoop P keyword logicalOfObj of
                    Inl f \<Rightarrow> Inl f
                  | Inr children \<Rightarrow>
                      (let combinator =
                             (case keyword of
                                AllOf \<Rightarrow> AndMatchExpression children
                              | AnyOf \<Rightarrow> OrMatchExpression children
                              | OneOf \<Rightarrow> InternalSchemaXorMatchExpression children)
                       in if pth = [] then Inr combinator
                          else (case objectMatchInit P combinator pth of
                                  Some objectMatchStatus \<Rightarrow> Inl objectMatchStatus
                                | None \<Rightarrow>
                                    makeRestriction P (typeOfBSONType Object)
                                      (InternalSchemaObjectMatchExpression combinator pth)
                                      typeExpr)))))"
| "parseLogicalOfLoop P keyword [] = Inr []"
| "parseLogicalOfLoop P keyword (logicalOfElt # rest) =
     (if elemType logicalOfElt \<noteq> Object
      then Inl (Status FailedToParse
             (logicalKeywordName keyword @
              '' must be an array of objects, but found an element of type '' @
              typeName P (elemType logicalOfElt)))
      else (case parse' P (fieldName logicalOfElt) (embeddedObject logicalOfElt) of
              Inl f \<Rightarrow> Inl f
            | Inr nestedSchemaMatch \<Rightarrow>
                (case parseLogicalOfLoop P keyword rest of
                   Inl f \<Rightarrow> Inl f
                 | Inr children \<Rightarrow> Inr (nestedSchemaMatch # children))))"
| "parseNot P pth logicalNot typeExpr =
     (if elemType logicalNot \<noteq> Object
      then Inl (Status FailedToParse
             (fieldName logicalNot @ '' must be an object, but found an element of type '' @
              typeName P (elemType logicalNot)))
      else (case parse' P (fieldName logicalNot) (embeddedObject logicalNot) of
              Inl f \<Rightarrow> Inl f
            | Inr nested \<Rightarrow>
                (case notInit P nested of
                   Some notMatchStatus \<Rightarrow> Inl notMatchStatus
                 | None \<Rightarrow>
                     (let notMatch = NotMatchExpression nested in
                      if pth = [] then Inr notMatch
                      else (case objectMatchInit P notMatch pth of
                              Some objectMatchStatus \<Rightarrow> Inl objectMatchStatus
                            | None \<Rightarrow>
                                makeRestriction P (typeOfBSONType Object)
                                  (InternalSchemaObjectMatchExpression notMatch pth) typeExpr)))))"
  by pat_completeness auto

termination
proof (relation "measure (\<lambda>call. case call of
    Inl (Inl (P, pth, schema)) \<Rightarrow> 2 * size (ObjectValue schema)
  | Inl (Inr (Inl (P, pth, elt, typeExpr))) \<Rightarrow> 2 * size (snd elt) + 1
  | Inl (Inr (Inr (P, obj))) \<Rightarrow> 2 * size (ObjectValue obj)
  | Inr (Inl (P, pth, elt, typeExpr, keyword)) \<Rightarrow> 2 * size (snd elt) + 1
  | Inr (Inr (Inl (P, keyword, obj))) \<Rightarrow> 2 * size (ObjectValue obj)
  | Inr (Inr (Inr (P, pth, elt, typeExpr))) \<Rightarrow> 2 * size (snd elt) + 1)",
  goal_cases)
  case 1
  show ?case by simp
next
  case (2 P pth schema keywordMap typeExpr elt)
  then show ?case
    using keyword_element_measure[of schema keywordMap kSchemaPropertiesKeyword elt] by simp
next
  case (3 P pth schema keywordMap typeExpr and1 and2 and3 and4 and5 and6 elt)
  then show ?case
    using keyword_element_measure[of schema keywordMap kSchemaAllOfKeyword elt] by simp
next
  case (4 P pth schema keywordMap typeExpr and1 and2 and3 and4 and5 and6 and7 elt)
  then show ?case
    using keyword_element_measure[of schema keywordMap kSchemaAnyOfKeyword elt] by simp
next
  case (5 P pth schema keywordMap typeExpr and1 and2 and3 and4 and5 and6 and7 and8 elt)
  then show ?case
    using keyword_element_measure[of schema keywordMap kSchemaOneOfKeyword elt] by simp
next
  case (6 P pth schema keywordMap typeExpr and1 and2 and3 and4 and5 and6 and7 and8 and9 elt)
  then show ?case
    using keyword_element_measure[of schema keywordMap kSchemaNotKeyword elt] by simp
next
  case (7 P pth propertiesElt typeExpr)
  then show ?case using size_embeddedObject[of propertiesElt] by simp
next
  case (8 P property rest)
  then show ?case using size_embeddedObject[of property] by (cases property) simp
next
  case (9 P property rest nested)
  then show ?case by simp
next
  case (10 P pth logicalOf typeExpr keyword logicalOfObj)
  then show ?case using size_embeddedObject[of logicalOf] by simp
next
  case (11 P keyword logicalOfElt rest)
  then show ?case using size_embeddedObject[of logicalOfElt] by (cases logicalOfElt) simp
next
  case (12 P keyword logicalOfElt rest nested)
  then show ?case by simp
next
  case (13 P pth logicalNot typeExpr)
  then show ?case using size_embeddedObject[of logicalNot] by simp
qed

text \<open>\<open>JSONSchemaParser::parse\<close>: the compiler's entry point, at the empty path.\<close>

definition parse :: "SchemaLibrary \<Rightarrow> BSONObj \<Rightarrow> Failure + MatchExpression" where
  "parse P schema = parse' P [] schema"

declare parse'.simps [simp del] parseProperties.simps [simp del] parseLogicalOf.simps [simp del]
  parseNot.simps [simp del]

subsection \<open>Evaluation of a compiled tree\<close>


section \<open>The property of a single field, in the specification's words\<close>

text \<open>
  A pattern applies to a field when its regex partially matches the field's name, and
  accepts the field when its sub-expression matches the field's value. The fallback accepts a
  field when the \<open>otherwise\<close> sub-expression matches it or, for a boolean fallback, when
  the boolean is true. A field passes when every pattern that applies to it accepts it and,
  if its name is no literal property and no pattern applies, the fallback accepts it.
\<close>

definition patternApplies :: "('e, 't) MatchLibrary \<Rightarrow> BSONElement \<Rightarrow> 'e PatternElem \<Rightarrow> bool" where
  "patternApplies L item elem = PartialMatch L (regex (fst elem)) (fieldName item)"

definition patternAccepts :: "('e, 't) MatchLibrary \<Rightarrow> BSONElement \<Rightarrow> 'e PatternElem \<Rightarrow> bool" where
  "patternAccepts L item elem = filterMatchesSingleElement L (getFilter (snd elem)) item"

definition otherwiseAccepts ::
  "('e, 't) MatchLibrary \<Rightarrow> ('e, 't) AllowedProperties \<Rightarrow> BSONElement \<Rightarrow> bool" where
  "otherwiseAccepts L this item =
     (case otherwise this of
        Some ow \<Rightarrow> filterMatchesSingleElement L (getFilter ow) item
      | None \<Rightarrow> boolOtherwise this)"

definition fieldPasses ::
  "('e, 't) MatchLibrary \<Rightarrow> ('e, 't) AllowedProperties \<Rightarrow> BSONElement \<Rightarrow> bool" where
  "fieldPasses L this item =
     ((\<forall>elem \<in> set (patternProperties this).
         patternApplies L item elem \<longrightarrow> patternAccepts L item elem) \<and>
      (fieldName item \<notin> set (properties this) \<and>
       \<not> (\<exists>elem \<in> set (patternProperties this). patternApplies L item elem)
       \<longrightarrow> otherwiseAccepts L this item))"

text \<open>
  The fallbacks of two nodes agree, in the specification's words: they are of the same kind,
  and either both are expressions that are equivalent, with equal placeholders, or both are
  booleans that are equal.
\<close>

definition sameOtherwise ::
  "('e, 't) MatchLibrary \<Rightarrow> ('e, 't) AllowedProperties \<Rightarrow> ('e, 't) AllowedProperties \<Rightarrow> bool" where
  "sameOtherwise L a b =
     (case (otherwise a, otherwise b) of
        (Some ow, Some ow') \<Rightarrow>
          filterEquivalent L (getFilter ow) (getFilter ow') \<and>
          getPlaceholder ow = getPlaceholder ow'
      | (None, None) \<Rightarrow> boolOtherwise a = boolOtherwise b
      | _ \<Rightarrow> False)"

text \<open>
  The invariant of the data model: the name placeholder is not empty when there is a
  pattern or the fallback is an expression.
\<close>

definition wellFormed :: "('e, 't) AllowedProperties \<Rightarrow> bool" where
  "wellFormed a =
     (patternProperties a \<noteq> [] \<or> otherwise a \<noteq> None \<longrightarrow> namePlaceholder a \<noteq> [])"

text \<open>
  The document one entry of \<open>patternProperties\<close> serializes to: the regex with its source
  text and no flags, and the serialized sub-expression.
\<close>

definition patternDocument :: "('e, 't) MatchLibrary \<Rightarrow> 'e PatternElem \<Rightarrow> BSONValue" where
  "patternDocument L item =
     ObjectValue [(''regex'', RegExValue (serializedRegex (fst item)) []),
                  (''expression'', ObjectValue (filterSerialize L (getFilter (snd item)) []))]"







section \<open>The nodes of the unit tests\<close>

text \<open>
  Modelled from the spec: the \<open>Type(path, TypeSpec)\<close> node of the match-expression library,
  the only sub-expression the unit tests use (\<open>{i: {$type: 'string'}}\<close>,
  \<open>{i: {$type: 'number'}}\<close>). It accepts a value of the stated tag, or of any numeric tag.
\<close>

definition typeMatchesSingleElement :: "TypeMatchExpression \<Rightarrow> BSONElement \<Rightarrow> bool" where
  "typeMatchesSingleElement t e =
     (if matchesAllNumbers t then isNumber e else elemType e = getBSONType t)"

definition typeSerialize :: "TypeMatchExpression \<Rightarrow> BSONObj \<Rightarrow> BSONObj" where
  "typeSerialize t out =
     out @ [(typePath t, ObjectValue [(''$type'',
        if matchesAllNumbers t then StringValue ''number''
        else if getBSONType t = String then StringValue ''string''
        else StringValue ''object'')])]"

text \<open>
  The regular expressions of the unit tests are a literal, anchored at the start by \<open>^\<close>
  or not anchored; this matcher reads a pattern that way.
\<close>

fun startsWith :: "string \<Rightarrow> string \<Rightarrow> bool" where
  "startsWith [] s = True"
| "startsWith (c # cs) [] = False"
| "startsWith (c # cs) (d # ds) = (c = d \<and> startsWith cs ds)"

fun occursIn :: "string \<Rightarrow> string \<Rightarrow> bool" where
  "occursIn lit [] = (lit = [])"
| "occursIn lit (d # ds) = (startsWith lit (d # ds) \<or> occursIn lit ds)"

definition literalPartialMatch :: "string \<Rightarrow> string \<Rightarrow> bool" where
  "literalPartialMatch pattern subject =
     (case pattern of
        [] \<Rightarrow> True
      | c # lit \<Rightarrow> if c = CHR ''^'' then startsWith lit subject else occursIn pattern subject)"

definition testLibrary :: "(TypeMatchExpression, unit) MatchLibrary" where
  "testLibrary =
     \<lparr>filterMatchesSingleElement = typeMatchesSingleElement,
      filterEquivalent = (\<lambda>a b. a = b),
      filterShallowClone = (\<lambda>a. a),
      filterSerialize = typeSerialize,
      PartialMatch = literalPartialMatch,
      tagClone = (\<lambda>t. t)\<rparr>"

definition typeIs :: "string \<Rightarrow> BSONType \<Rightarrow> TypeMatchExpression" where
  "typeIs p t = \<lparr>typePath = p, typeSpec = typeOfBSONType t\<rparr>"

definition typeIsNumber :: "string \<Rightarrow> TypeMatchExpression" where
  "typeIsNumber p = \<lparr>typePath = p, typeSpec = \<lparr>allNumbers = True, bsonType = EOO\<rparr>\<rparr>"

definition withPlaceholder :: "string \<Rightarrow> 'e \<Rightarrow> 'e ExpressionWithPlaceholder" where
  "withPlaceholder p f = \<lparr>getPlaceholder = p, getFilter = f\<rparr>"

text \<open>
  \<open>{properties: ['x'], namePlaceholder: 'i', patternProperties: [{regex: /^a/, expression:
  {i: {$type: 'string'}}}], otherwise: {i: {$type: 'number'}}}\<close>
\<close>

definition nodeXA :: "(TypeMatchExpression, unit) AllowedProperties" where
  "nodeXA =
     \<lparr>tag = None, properties = [''x''],
      patternProperties = [(Regex ''^a'', withPlaceholder ''i'' (typeIs ''i'' String))],
      otherwise = Some (withPlaceholder ''i'' (typeIsNumber ''i'')),
      boolOtherwise = True, namePlaceholder = ''i''\<rparr>"

text \<open>The same with the pattern \<open>/^x/\<close>, which the literal property \<open>x\<close> matches too.\<close>

definition nodeXX :: "(TypeMatchExpression, unit) AllowedProperties" where
  "nodeXX =
     \<lparr>tag = None, properties = [''x''],
      patternProperties = [(Regex ''^x'', withPlaceholder ''i'' (typeIs ''i'' String))],
      otherwise = Some (withPlaceholder ''i'' (typeIsNumber ''i'')),
      boolOtherwise = True, namePlaceholder = ''i''\<rparr>"

text \<open>
  \<open>{properties: ['a'], namePlaceholder: 'i', patternProperties: [], otherwise: true}\<close> and
  the same with \<open>otherwise: {i: {$type: 'number'}}\<close>.
\<close>

definition nodeBoolOtherwise :: "(TypeMatchExpression, unit) AllowedProperties" where
  "nodeBoolOtherwise =
     \<lparr>tag = None, properties = [''a''], patternProperties = [], otherwise = None,
      boolOtherwise = True, namePlaceholder = ''i''\<rparr>"

definition nodeExprOtherwise :: "(TypeMatchExpression, unit) AllowedProperties" where
  "nodeExprOtherwise =
     \<lparr>tag = None, properties = [''a''], patternProperties = [],
      otherwise = Some (withPlaceholder ''i'' (typeIsNumber ''i'')),
      boolOtherwise = True, namePlaceholder = ''i''\<rparr>"

text \<open>
  \<open>{properties: ['a'], namePlaceholder: 'i', patternProperties: [{regex: /^a/, expression:
  {i: {$type: 'string'}}}], otherwise: {i: {$type: 'number'}}}\<close>, and two nodes that differ
  in the order of their properties and of their patterns only.
\<close>

definition nodeAA :: "(TypeMatchExpression, unit) AllowedProperties" where
  "nodeAA =
     \<lparr>tag = None, properties = [''a''],
      patternProperties = [(Regex ''^a'', withPlaceholder ''i'' (typeIs ''i'' String))],
      otherwise = Some (withPlaceholder ''i'' (typeIsNumber ''i'')),
      boolOtherwise = True, namePlaceholder = ''i''\<rparr>"

definition nodeAB :: "(TypeMatchExpression, unit) AllowedProperties" where
  "nodeAB =
     \<lparr>tag = None, properties = [''a'', ''b''],
      patternProperties =
        [(Regex ''^a'', withPlaceholder ''i'' (typeIs ''i'' String)),
         (Regex ''^b'', withPlaceholder ''i'' (typeIsNumber ''i''))],
      otherwise = Some (withPlaceholder ''i'' (typeIsNumber ''i'')),
      boolOtherwise = True, namePlaceholder = ''i''\<rparr>"

definition nodeBA :: "(TypeMatchExpression, unit) AllowedProperties" where
  "nodeBA =
     \<lparr>tag = None, properties = [''b'', ''a''],
      patternProperties =
        [(Regex ''^b'', withPlaceholder ''i'' (typeIsNumber ''i'')),
         (Regex ''^a'', withPlaceholder ''i'' (typeIs ''i'' String))],
      otherwise = Some (withPlaceholder ''i'' (typeIsNumber ''i'')),
      boolOtherwise = True, namePlaceholder = ''i''\<rparr>"

text \<open>
  Nodes whose sub-expressions are AllowedProperties nodes themselves. The node with the
  fallback \<open>{i: {$type: 'string'}}\<close>; the library in which every operation on a
  sub-expression is the node's own (a comparison that reads a null pointer has no boolean
  value; it counts as not equivalent here, and no evaluation below reaches one); and the
  node with no literal property, the boolean fallback \<open>true\<close> and one pattern \<open>/^a/\<close> for
  each of the given sub-expressions.
\<close>

definition nodeExprOtherwiseString :: "(TypeMatchExpression, unit) AllowedProperties" where
  "nodeExprOtherwiseString =
     \<lparr>tag = None, properties = [''a''], patternProperties = [],
      otherwise = Some (withPlaceholder ''i'' (typeIs ''i'' String)),
      boolOtherwise = True, namePlaceholder = ''i''\<rparr>"

definition nestedLibrary ::
  "((TypeMatchExpression, unit) AllowedProperties, unit) MatchLibrary" where
  "nestedLibrary =
     \<lparr>filterMatchesSingleElement = matchesSingleElement testLibrary,
      filterEquivalent =
        (\<lambda>a b. equivalent testLibrary a (AllowedPropertiesExpression b) = Inr True),
      filterShallowClone =
        (\<lambda>a. case shallowClone testLibrary a of Inr (_, c) \<Rightarrow> c | Inl _ \<Rightarrow> a),
      filterSerialize = serialize testLibrary,
      PartialMatch = literalPartialMatch,
      tagClone = (\<lambda>t. t)\<rparr>"

definition outerNode ::
  "(TypeMatchExpression, unit) AllowedProperties list \<Rightarrow>
   ((TypeMatchExpression, unit) AllowedProperties, unit) AllowedProperties" where
  "outerNode filters =
     \<lparr>tag = None, properties = [],
      patternProperties = map (\<lambda>f. (Regex ''^a'', withPlaceholder ''i'' f)) filters,
      otherwise = None, boolOtherwise = True, namePlaceholder = ''i''\<rparr>"

text \<open>
  Modelled from the spec: the alias resolver of the \<open>type\<close> keyword and the integer parser,
  which belong to the match-expression library. The resolver knows the aliases the
  specification names; \<open>number\<close> resolves to "any numeric", which pins no tag. The integer
  parser rejects negative and fractional numbers with \<open>BadValue\<close>. Every \<open>init\<close> succeeds.
\<close>

definition testParseTypeFromAlias :: "string \<Rightarrow> string \<Rightarrow> Failure + TypeMatchExpression" where
  "testParseTypeFromAlias pth alias =
     (if alias = ''number'' then Inr (typeIsNumber pth)
      else if alias = ''string'' then Inr (typeIs pth String)
      else if alias = ''object'' then Inr (typeIs pth Object)
      else Inl (Status BadValue (''Unknown string alias for $type: '' @ alias)))"

definition nonNegativeInteger :: "rat \<Rightarrow> Failure + int" where
  "nonNegativeInteger r =
     (if of_int \<lfloor>r\<rfloor> \<noteq> r then Inl (Status BadValue ''Expected an integer'')
      else if r < 0 then Inl (Status BadValue ''Expected a positive number'')
      else Inr \<lfloor>r\<rfloor>)"

fun testParseIntegerElementToNonNegativeLong :: "BSONElement \<Rightarrow> Failure + int" where
  "testParseIntegerElementToNonNegativeLong (_, IntValue n) = nonNegativeInteger (of_int n)"
| "testParseIntegerElementToNonNegativeLong (_, LongValue n) = nonNegativeInteger (of_int n)"
| "testParseIntegerElementToNonNegativeLong (_, DoubleValue r) = nonNegativeInteger r"
| "testParseIntegerElementToNonNegativeLong (_, DecimalValue r) = nonNegativeInteger r"
| "testParseIntegerElementToNonNegativeLong _ = Inl (Status BadValue ''Expected a number'')"

fun testTypeName :: "BSONType \<Rightarrow> string" where
  "testTypeName NumberDouble = ''double''"
| "testTypeName String = ''string''"
| "testTypeName Object = ''object''"
| "testTypeName Array = ''array''"
| "testTypeName Bool = ''bool''"
| "testTypeName jstNULL = ''null''"
| "testTypeName NumberInt = ''int''"
| "testTypeName NumberLong = ''long''"
| "testTypeName NumberDecimal = ''decimal''"
| "testTypeName _ = ''other''"

definition testSchemaLibrary :: SchemaLibrary where
  "testSchemaLibrary =
     \<lparr>parseTypeFromAlias = testParseTypeFromAlias,
      parseIntegerElementToNonNegativeLong = testParseIntegerElementToNonNegativeLong,
      defaultBSONType = EOO,
      typeName = testTypeName,
      comparisonInit = (\<lambda>_ _. None),
      strLengthInit = (\<lambda>_ _. None),
      regexInit = (\<lambda>_ _ _. None),
      objectMatchInit = (\<lambda>_ _. None),
      notInit = (\<lambda>_. None),
      typeInit = (\<lambda>_ _. None),
      existsInit = (\<lambda>_. None)\<rparr>"

lemmas fixture_defs =
  testLibrary_def typeMatchesSingleElement_def typeSerialize_def literalPartialMatch_def
  typeIs_def typeIsNumber_def withPlaceholder_def typeOfBSONType_def matchesAllNumbers_def
  getBSONType_def isNumber_def elemType_def fieldName_def

lemmas block_defs =
  maximumBlock_def minimumBlock_def strLengthBlock_def patternBlock_def lookupKeyword_def
  initialKeywordMap_def

section \<open>Matching\<close>

lemma patternLoop_result:
  "patternLoop L pats item c =
     (if \<forall>elem \<in> set pats. patternApplies L item elem \<longrightarrow> patternAccepts L item elem
      then Some (c \<and> \<not> (\<exists>elem \<in> set pats. patternApplies L item elem))
      else None)"
  by (induction pats arbitrary: c) (auto simp: patternApplies_def patternAccepts_def Let_def)

lemma matchesObject_Cons_fieldPasses:
  "matchesObject L this (item # rest) = (fieldPasses L this item \<and> matchesObject L this rest)"
  by (auto simp: patternLoop_result fieldPasses_def otherwiseAccepts_def split: option.splits)

lemma matchesObject_fieldPasses:
  "matchesObject L this obj = (\<forall>item \<in> set obj. fieldPasses L this item)"
  by (induction obj)
     (simp_all only: matchesObject_Cons_fieldPasses matchesObject.simps(1) list.set
        ball_simps ball_empty)

lemma fieldPasses_otherwise_irrelevant:
  "fieldName item \<in> set (properties this) \<or>
   (\<exists>elem \<in> set (patternProperties this). patternApplies L item elem) \<Longrightarrow>
   fieldPasses L (this\<lparr>otherwise := ow, boolOtherwise := b\<rparr>) item = fieldPasses L this item"
  by (auto simp: fieldPasses_def)

text \<open>
  C1. The verdict of an AllowedProperties node on an object is computed field by field: the
  node accepts the object exactly when every field passes, where a field passes when every
  pattern whose regex partially matches its name has its sub-expression accept its value and,
  if neither the literal set nor any pattern matches the name, the fallback accepts it (a
  sub-expression must match the value, boolean false rejects, boolean true accepts). A field
  that the literal set or some pattern matches does not consult the fallback: replacing the
  fallback leaves its verdict as it is.
\<close>

theorem matchesObject_field_by_field:
  "(matchesObject L this obj = (\<forall>item \<in> set obj. fieldPasses L this item)) \<and>
   (\<forall>item ow b.
      fieldName item \<in> set (properties this) \<or>
      (\<exists>elem \<in> set (patternProperties this). patternApplies L item elem) \<longrightarrow>
      matchesObject L (this\<lparr>otherwise := ow, boolOtherwise := b\<rparr>) [item] =
      matchesObject L this [item])"
  using fieldPasses_otherwise_irrelevant[of _ this L]
  by (simp add: matchesObject_fieldPasses)

theorem matchesObject_field_by_field_witness:
  "matchesObject testLibrary nodeXA
     [(''x'', ObjectValue [(''z'', IntValue 1)]), (''a'', StringValue ''string''), (''c'', IntValue 5)] \<and>
   \<not> matchesObject testLibrary nodeXA [(''c'', StringValue ''string'')] \<and>
   \<not> matchesObject testLibrary nodeXA [(''abc'', IntValue 3)] \<and>
   \<not> fieldPasses testLibrary nodeXA (''abc'', IntValue 3) \<and>
   matchesObject testLibrary (nodeXA\<lparr>otherwise := None, boolOtherwise := False\<rparr>)
     [(''x'', IntValue 1)] =
   matchesObject testLibrary nodeXA [(''x'', IntValue 1)]"
proof -
  have passes:
    "fieldPasses testLibrary nodeXA (''x'', ObjectValue [(''z'', IntValue 1)])"
    "fieldPasses testLibrary nodeXA (''a'', StringValue ''string'')"
    "fieldPasses testLibrary nodeXA (''c'', IntValue 5)"
    by (simp_all add: fieldPasses_def patternApplies_def patternAccepts_def otherwiseAccepts_def
          nodeXA_def fixture_defs)
  have fails:
    "\<not> fieldPasses testLibrary nodeXA (''c'', StringValue ''string'')"
    "\<not> fieldPasses testLibrary nodeXA (''abc'', IntValue 3)"
    by (simp_all add: fieldPasses_def patternApplies_def patternAccepts_def otherwiseAccepts_def
          nodeXA_def fixture_defs)
  have literal: "fieldName (''x'', IntValue 1) \<in> set (properties nodeXA)"
    by (simp add: nodeXA_def fieldName_def)
  show ?thesis
    using passes fails literal
      matchesObject_field_by_field[of testLibrary nodeXA
        "[(''x'', ObjectValue [(''z'', IntValue 1)]), (''a'', StringValue ''string''), (''c'', IntValue 5)]"]
      matchesObject_field_by_field[of testLibrary nodeXA "[(''c'', StringValue ''string'')]"]
      matchesObject_field_by_field[of testLibrary nodeXA "[(''abc'', IntValue 3)]"]
    by simp
qed

text \<open>
  C4. A field whose name is a literal property and is also partially matched by a pattern's
  regex is still checked against that pattern's sub-expression: when the sub-expression
  rejects the value, the whole match is false. Literal membership suppresses the fallback
  only: the verdict on such a field alone is that every pattern applying to it accepts it.
\<close>

theorem literal_membership_keeps_pattern_checks:
  "(fieldName item \<in> set (properties this) \<and> elem \<in> set (patternProperties this) \<and>
    PartialMatch L (regex (fst elem)) (fieldName item) \<and>
    \<not> filterMatchesSingleElement L (getFilter (snd elem)) item \<and> item \<in> set obj
    \<longrightarrow> \<not> matchesObject L this obj) \<and>
   (fieldName item \<in> set (properties this) \<longrightarrow>
    matchesObject L this [item] =
    (\<forall>elem \<in> set (patternProperties this).
       PartialMatch L (regex (fst elem)) (fieldName item) \<longrightarrow>
       filterMatchesSingleElement L (getFilter (snd elem)) item))"
  by (auto simp: matchesObject_fieldPasses fieldPasses_def patternApplies_def patternAccepts_def)

theorem literal_membership_keeps_pattern_checks_witness:
  "fieldName (''x'', IntValue 5) \<in> set (properties nodeXX) \<and>
   PartialMatch testLibrary (regex (Regex ''^x'')) (fieldName (''x'', IntValue 5)) \<and>
   \<not> matchesObject testLibrary nodeXX [(''b'', IntValue 2), (''x'', IntValue 5)] \<and>
   matchesObject testLibrary nodeXX [(''x'', StringValue ''s'')]"
proof -
  let ?item = "(''x'', IntValue 5)"
  let ?elem = "(Regex ''^x'', withPlaceholder ''i'' (typeIs ''i'' String))"
  have h: "fieldName ?item \<in> set (properties nodeXX)" "?elem \<in> set (patternProperties nodeXX)"
    "PartialMatch testLibrary (regex (fst ?elem)) (fieldName ?item)"
    "\<not> filterMatchesSingleElement testLibrary (getFilter (snd ?elem)) ?item"
    "?item \<in> set [(''b'', IntValue 2), ?item]"
    by (simp_all add: nodeXX_def fixture_defs)
  have g: "fieldName (''x'', StringValue ''s'') \<in> set (properties nodeXX)"
    "filterMatchesSingleElement testLibrary (getFilter (snd ?elem)) (''x'', StringValue ''s'')"
    by (simp_all add: nodeXX_def fixture_defs)
  show ?thesis
    using h g
      literal_membership_keeps_pattern_checks[of ?item nodeXX ?elem testLibrary
        "[(''b'', IntValue 2), ?item]"]
      literal_membership_keeps_pattern_checks[of "(''x'', StringValue ''s'')" nodeXX ?elem testLibrary]
    by (simp add: nodeXX_def)
qed

text \<open>
  C8. Matching an AllowedProperties node against a single tagged value whose tag is not
  \<open>Object\<close> (an array, a string, a number, ...) is false; the loop over the fields is
  entered for \<open>Object\<close>-tagged values only, on the fields of that object.
\<close>

theorem matchesSingleElement_rejects_non_objects:
  "(elemType v \<noteq> Object \<longrightarrow> \<not> matchesSingleElement L a v) \<and>
   (elemType v = Object \<longrightarrow> matchesSingleElement L a v = matchesObject L a (embeddedObject v))"
  by (simp add: matchesSingleElement_def)

theorem matchesSingleElement_rejects_non_objects_witness:
  "elemType (''a'', ArrayValue [(''0'', IntValue 1), (''1'', IntValue 2)]) \<noteq> Object \<and>
   \<not> matchesSingleElement testLibrary nodeXA
       (''a'', ArrayValue [(''0'', IntValue 1), (''1'', IntValue 2)]) \<and>
   matchesObject testLibrary nodeXA [(''0'', IntValue 1), (''1'', IntValue 2)] \<and>
   \<not> matchesSingleElement testLibrary nodeXA (''a'', StringValue ''string'') \<and>
   \<not> matchesSingleElement testLibrary nodeXA (''a'', IntValue 1) \<and>
   matchesSingleElement testLibrary nodeXA (''a'', ObjectValue [(''c'', IntValue 5)])"
proof -
  have tags:
    "elemType (''a'', ArrayValue [(''0'', IntValue 1), (''1'', IntValue 2)]) \<noteq> Object"
    "elemType (''a'', StringValue ''string'') \<noteq> Object"
    "elemType (''a'', IntValue 1) \<noteq> Object"
    "elemType (''a'', ObjectValue [(''c'', IntValue 5)]) = Object"
    by (simp_all add: elemType_def)
  have fields:
    "matchesObject testLibrary nodeXA [(''0'', IntValue 1), (''1'', IntValue 2)]"
    "matchesObject testLibrary nodeXA [(''c'', IntValue 5)]"
    by (simp_all add: nodeXA_def fixture_defs)
  show ?thesis
    using tags fields
      matchesSingleElement_rejects_non_objects[of
        "(''a'', ArrayValue [(''0'', IntValue 1), (''1'', IntValue 2)])" testLibrary nodeXA]
      matchesSingleElement_rejects_non_objects[of "(''a'', StringValue ''string'')" testLibrary nodeXA]
      matchesSingleElement_rejects_non_objects[of "(''a'', IntValue 1)" testLibrary nodeXA]
      matchesSingleElement_rejects_non_objects[of "(''a'', ObjectValue [(''c'', IntValue 5)])"
        testLibrary nodeXA]
    by simp
qed

text \<open>
  C10. Matching a whole document runs the loop over the fields on the document itself,
  with no test of a type tag: the verdict is that of the fields alone (so the empty document
  is accepted). The test of the tag is in the entry point for a single value only, which
  agrees with the whole-document entry point on every \<open>Object\<close>-tagged value, and rejects
  the same fields when they come tagged as an array.
\<close>

theorem matches_has_no_type_guard:
  "matches L this doc = matchesObject L this doc \<and>
   matches L this doc = (\<forall>item \<in> set doc. fieldPasses L this item) \<and>
   matches L this [] \<and>
   matchesSingleElement L this (name, ObjectValue doc) = matches L this doc \<and>
   \<not> matchesSingleElement L this (name, ArrayValue doc)"
  by (simp add: matches_def matchesSingleElement_def elemType_def matchesObject_fieldPasses)

theorem matches_has_no_type_guard_witness:
  "matches testLibrary nodeXA [(''0'', IntValue 1), (''1'', IntValue 2)] \<and>
   matchesSingleElement testLibrary nodeXA
     (''a'', ObjectValue [(''0'', IntValue 1), (''1'', IntValue 2)]) \<and>
   \<not> matchesSingleElement testLibrary nodeXA
       (''a'', ArrayValue [(''0'', IntValue 1), (''1'', IntValue 2)])"
proof -
  have "fieldPasses testLibrary nodeXA (''0'', IntValue 1)"
    "fieldPasses testLibrary nodeXA (''1'', IntValue 2)"
    by (simp_all add: fieldPasses_def patternApplies_def patternAccepts_def otherwiseAccepts_def
          nodeXA_def fixture_defs)
  then have "\<forall>item \<in> set [(''0'', IntValue 1), (''1'', IntValue 2)].
      fieldPasses testLibrary nodeXA item"
    by simp
  then show ?thesis
    using matches_has_no_type_guard[of testLibrary nodeXA
        "[(''0'', IntValue 1), (''1'', IntValue 2)]" "''a''"]
    by blast
qed

text \<open>
  C3. Two AllowedProperties nodes whose fallbacks are of different kinds are not equivalent:
  \<open>equivalent\<close> returns false on them. The source does otherwise. With a boolean fallback
  \<open>true\<close> in the receiver and an expression fallback in the argument it compares the
  receiver's boolean with the argument's default boolean and answers true; with the kinds the
  other way round it reads the argument's null \<open>_otherwise\<close>. Both nodes are results of
  \<open>init\<close> on a new node.
\<close>

theorem equivalent_mixed_otherwise_kinds:
  "initBool newAllowedProperties [''a''] [] True ''i'' = Inr nodeBoolOtherwise \<and>
   initExpression newAllowedProperties [''a''] []
     (Some (withPlaceholder ''i'' (typeIsNumber ''i''))) ''i'' = Inr nodeExprOtherwise \<and>
   equivalent testLibrary nodeBoolOtherwise (AllowedPropertiesExpression nodeExprOtherwise) =
     Inr True \<and>
   equivalent testLibrary nodeExprOtherwise (AllowedPropertiesExpression nodeBoolOtherwise) =
     Inl NullPointerDereference"
  by (simp add: initBool_def initExpression_def newAllowedProperties_def nodeBoolOtherwise_def
        nodeExprOtherwise_def equivalent_def otherwiseDiffers_def samePropertiesSet_def
        is_permutation_def)

section \<open>Equivalence and cloning\<close>

lemma count_if_mset: "mset xs = mset ys \<Longrightarrow> count_if P xs = count_if P ys"
proof -
  assume "mset xs = mset ys"
  then have "size (filter_mset P (mset xs)) = size (filter_mset P (mset ys))" by simp
  then show ?thesis by (simp add: count_if_def flip: mset_filter)
qed

lemma count_if_append: "count_if P (xs @ ys) = count_if P xs + count_if P ys"
  by (simp add: count_if_def)

lemma equivp_related_iff:
  assumes "equivp p" and "p a b"
  shows "p y a = p y b"
  using assms by (meson equivp_symp equivp_transp)

lemma count_if_related:
  assumes "equivp p" and "p a b"
  shows "count_if (\<lambda>y. p y a) xs = count_if (\<lambda>y. p y b) xs"
  using equivp_related_iff[OF assms] by simp

lemma count_if_list_all2:
  assumes "equivp p"
  shows "list_all2 p xs ys \<Longrightarrow> count_if (\<lambda>y. p y z) xs = count_if (\<lambda>y. p y z) ys"
proof (induction rule: list_all2_induct)
  case Nil
  show ?case by simp
next
  case (Cons x xs y ys)
  have "p x z = p y z"
    using assms Cons.hyps(1) by (meson equivp_symp equivp_transp)
  with Cons.IH show ?case by (simp add: count_if_def)
qed

lemma mismatch_prefixes:
  "mismatch pred xs ys = (xs', ys') \<Longrightarrow>
   \<exists>pre1 pre2. xs = pre1 @ xs' \<and> ys = pre2 @ ys' \<and> list_all2 pred pre1 pre2"
proof (induction xs arbitrary: ys)
  case Nil
  then have "[] = [] @ xs' \<and> ys = [] @ ys' \<and> list_all2 pred [] []" by simp
  then show ?case by blast
next
  case (Cons x xs)
  show ?case
  proof (cases ys)
    case Nil
    with Cons.prems have "x # xs = [] @ xs' \<and> ys = [] @ ys' \<and> list_all2 pred [] []"
      by simp
    then show ?thesis by blast
  next
    case ys: (Cons y ys0)
    show ?thesis
    proof (cases "pred x y")
      case True
      with Cons.prems ys have "mismatch pred xs ys0 = (xs', ys')" by simp
      from Cons.IH[OF this] obtain pre1 pre2 where
        "xs = pre1 @ xs'" "ys0 = pre2 @ ys'" "list_all2 pred pre1 pre2"
        by blast
      with True ys have "x # xs = (x # pre1) @ xs' \<and> ys = (y # pre2) @ ys' \<and>
        list_all2 pred (x # pre1) (y # pre2)" by simp
      then show ?thesis by blast
    next
      case False
      with Cons.prems ys have "x # xs = [] @ xs' \<and> ys = [] @ ys' \<and> list_all2 pred [] []"
        by simp
      then show ?thesis by blast
    qed
  qed
qed

lemma permutationScan_counts:
  assumes "equivp p"
  shows "(\<forall>s \<in> set seen. count_if (\<lambda>y. p y s) (seen @ rest) = count_if (\<lambda>y. p y s) ys) \<Longrightarrow>
         permutationScan p seen rest ys =
         (\<forall>x \<in> set rest. count_if (\<lambda>y. p y x) (seen @ rest) = count_if (\<lambda>y. p y x) ys)"
proof (induction rest arbitrary: seen)
  case Nil
  show ?case by simp
next
  case (Cons x rest)
  show ?case
  proof (cases "list_ex (\<lambda>s. p s x) seen")
    case True
    then obtain s where s: "s \<in> set seen" "p s x" by (auto simp: list_ex_iff)
    have "count_if (\<lambda>y. p y x) (seen @ x # rest) = count_if (\<lambda>y. p y s) (seen @ x # rest)"
      using count_if_related[OF assms s(2)] by simp
    also have "\<dots> = count_if (\<lambda>y. p y s) ys" using Cons.prems s(1) by blast
    also have "\<dots> = count_if (\<lambda>y. p y x) ys" using count_if_related[OF assms s(2)] by simp
    finally have here: "count_if (\<lambda>y. p y x) (seen @ x # rest) = count_if (\<lambda>y. p y x) ys" .
    have inv: "\<forall>s \<in> set (seen @ [x]).
        count_if (\<lambda>y. p y s) ((seen @ [x]) @ rest) = count_if (\<lambda>y. p y s) ys"
      using Cons.prems here by auto
    from Cons.IH[OF inv] True here show ?thesis by simp
  next
    case False
    then have none: "filter (\<lambda>y. p y x) seen = []"
      by (auto simp: list_ex_iff filter_empty_conv)
    have refl: "p x x" using assms by (meson equivp_reflp)
    have whole: "count_if (\<lambda>y. p y x) (seen @ x # rest) = count_if (\<lambda>y. p y x) (x # rest)"
      using none by (simp add: count_if_def)
    have pos: "count_if (\<lambda>y. p y x) (x # rest) \<noteq> 0" using refl by (simp add: count_if_def)
    show ?thesis
    proof (cases "count_if (\<lambda>y. p y x) (x # rest) = count_if (\<lambda>y. p y x) ys")
      case True
      have inv: "\<forall>s \<in> set (seen @ [x]).
          count_if (\<lambda>y. p y s) ((seen @ [x]) @ rest) = count_if (\<lambda>y. p y s) ys"
        using Cons.prems whole True by auto
      from Cons.IH[OF inv] False True pos whole show ?thesis by (simp add: Let_def)
    next
      case neq: False
      with False whole show ?thesis by (auto simp: Let_def)
    qed
  qed
qed

lemma count_if_remove_class:
  assumes "equivp p" and "\<not> p z x"
  shows "count_if (\<lambda>y. p y z) (filter (\<lambda>y. \<not> p y x) xs) = count_if (\<lambda>y. p y z) xs"
proof -
  have "\<And>y. p y z \<Longrightarrow> \<not> p y x"
    using assms by (meson equivp_symp equivp_transp)
  then have "filter (\<lambda>y. p y z) (filter (\<lambda>y. \<not> p y x) xs) = filter (\<lambda>y. p y z) xs"
    by (auto simp: filter_filter intro: filter_cong)
  then show ?thesis by (simp add: count_if_def)
qed

lemma length_split_class:
  "length xs = count_if (\<lambda>y. p y x) xs + length (filter (\<lambda>y. \<not> p y x) xs)"
  by (simp add: count_if_def sum_length_filter_compl)

lemma counts_on_elements_suffice:
  assumes "equivp p"
  shows "length xs = length ys \<Longrightarrow>
         (\<forall>x \<in> set xs. count_if (\<lambda>y. p y x) xs = count_if (\<lambda>y. p y x) ys) \<Longrightarrow>
         count_if (\<lambda>y. p y z) xs = count_if (\<lambda>y. p y z) ys"
proof (induction "length xs" arbitrary: xs ys rule: less_induct)
  case less
  show ?case
  proof (cases xs)
    case Nil
    with less.prems show ?thesis by simp
  next
    case (Cons x xs0)
    let ?A = "filter (\<lambda>y. \<not> p y x) xs"
    let ?B = "filter (\<lambda>y. \<not> p y x) ys"
    have refl: "p x x" using assms by (meson equivp_reflp)
    have x_in: "x \<in> set xs" using Cons by simp
    have cx: "count_if (\<lambda>y. p y x) xs = count_if (\<lambda>y. p y x) ys"
      using less.prems(2) x_in by blast
    have pos: "count_if (\<lambda>y. p y x) xs \<noteq> 0"
      using refl Cons by (simp add: count_if_def)
    have lenAB: "length ?A = length ?B"
      using length_split_class[of xs p x] length_split_class[of ys p x] cx less.prems(1)
      by simp
    have smaller: "length ?A < length xs"
      using length_split_class[of xs p x] pos by simp
    have onA: "\<forall>a \<in> set ?A. count_if (\<lambda>y. p y a) ?A = count_if (\<lambda>y. p y a) ?B"
    proof
      fix a assume a: "a \<in> set ?A"
      then have na: "\<not> p a x" and ain: "a \<in> set xs" by auto
      from count_if_remove_class[OF assms na, of xs] count_if_remove_class[OF assms na, of ys]
        less.prems(2) ain
      show "count_if (\<lambda>y. p y a) ?A = count_if (\<lambda>y. p y a) ?B" by simp
    qed
    show ?thesis
    proof (cases "p z x")
      case True
      from count_if_related[OF assms True, of xs] count_if_related[OF assms True, of ys] cx
      show ?thesis by simp
    next
      case False
      from less.hyps[OF smaller lenAB onA]
        count_if_remove_class[OF assms False, of xs] count_if_remove_class[OF assms False, of ys]
      show ?thesis by simp
    qed
  qed
qed

lemma is_permutation_counts:
  assumes "equivp p"
  shows "is_permutation p xs ys =
         (length xs = length ys \<and>
          (\<forall>z. count_if (\<lambda>y. p y z) xs = count_if (\<lambda>y. p y z) ys))"
proof (cases "length xs = length ys")
  case False
  then show ?thesis by (simp add: is_permutation_def)
next
  case True
  obtain xs' ys' where mm: "mismatch p xs ys = (xs', ys')" by (cases "mismatch p xs ys")
  from mismatch_prefixes[OF mm] obtain pre1 pre2 where
    pre: "xs = pre1 @ xs'" "ys = pre2 @ ys'" "list_all2 p pre1 pre2" by blast
  have lenpre: "length pre1 = length pre2" using pre(3) by (rule list_all2_lengthD)
  with True pre have len': "length xs' = length ys'" by simp
  have prec: "\<And>z. count_if (\<lambda>y. p y z) pre1 = count_if (\<lambda>y. p y z) pre2"
    using count_if_list_all2[OF assms pre(3)] .
  have whole: "\<And>z. (count_if (\<lambda>y. p y z) xs = count_if (\<lambda>y. p y z) ys) =
                   (count_if (\<lambda>y. p y z) xs' = count_if (\<lambda>y. p y z) ys')"
    using prec pre(1,2) by (simp add: count_if_append)
  have scan: "permutationScan p [] xs' ys' =
      (\<forall>x \<in> set xs'. count_if (\<lambda>y. p y x) xs' = count_if (\<lambda>y. p y x) ys')"
    using permutationScan_counts[OF assms, of "[]" xs' ys'] by simp
  have all: "(\<forall>x \<in> set xs'. count_if (\<lambda>y. p y x) xs' = count_if (\<lambda>y. p y x) ys') =
             (\<forall>z. count_if (\<lambda>y. p y z) xs' = count_if (\<lambda>y. p y z) ys')"
    using counts_on_elements_suffice[OF assms len'] by blast
  show ?thesis
  proof (cases "xs' = []")
    case True
    with len' have "ys' = []" by simp
    with True \<open>length xs = length ys\<close> mm whole show ?thesis
      by (simp add: is_permutation_def)
  next
    case False
    with \<open>length xs = length ys\<close> mm scan all whole show ?thesis
      by (simp add: is_permutation_def)
  qed
qed

lemma is_permutation_reorder_left:
  assumes "equivp p" and "mset xs' = mset xs"
  shows "is_permutation p xs' ys = is_permutation p xs ys"
proof -
  have "length xs' = length xs" using assms(2) by (metis size_mset)
  moreover have "\<And>z. count_if (\<lambda>y. p y z) xs' = count_if (\<lambda>y. p y z) xs"
    using count_if_mset[OF assms(2)] .
  ultimately show ?thesis by (simp add: is_permutation_counts[OF assms(1)])
qed

lemma is_permutation_reorder_right:
  assumes "equivp p" and "mset ys' = mset ys"
  shows "is_permutation p xs ys' = is_permutation p xs ys"
proof -
  have "length ys' = length ys" using assms(2) by (metis size_mset)
  moreover have "\<And>z. count_if (\<lambda>y. p y z) ys' = count_if (\<lambda>y. p y z) ys"
    using count_if_mset[OF assms(2)] .
  ultimately show ?thesis by (simp add: is_permutation_counts[OF assms(1)])
qed

lemma is_permutation_pairwise:
  assumes "equivp p" and "mset ys' = mset ys" and "list_all2 p xs ys'"
  shows "is_permutation p xs ys"
proof -
  have "is_permutation p xs ys'"
    using count_if_list_all2[OF assms(1,3)] list_all2_lengthD[OF assms(3)]
    by (simp add: is_permutation_counts[OF assms(1)])
  then show ?thesis using is_permutation_reorder_right[OF assms(1,2)] by simp
qed

lemma equivp_patternElemEquivalent:
  assumes "equivp (filterEquivalent L)"
  shows "equivp (patternElemEquivalent L)"
proof (rule equivpI)
  show "reflp (patternElemEquivalent L)"
    using assms by (auto simp: reflp_def patternElemEquivalent_def dest: equivp_reflp)
  show "symp (patternElemEquivalent L)"
    using assms by (auto simp: symp_def patternElemEquivalent_def dest: equivp_symp)
  show "transp (patternElemEquivalent L)"
    using assms by (auto simp: transp_def patternElemEquivalent_def dest: equivp_transp)
qed

lemma sameOtherwise_otherwiseDiffers:
  "sameOtherwise L a b \<Longrightarrow> otherwiseDiffers L a b = Inr False"
  by (auto simp: sameOtherwise_def otherwiseDiffers_def split: option.splits)

text \<open>
  Where the equivalence of sub-expressions is an equivalence relation, equivalence of
  AllowedProperties nodes does not depend on the order of either collection: reordering the
  literal properties (same set of names) and the patterns (same multiset) of the receiver or
  of the argument does not change the result of \<open>equivalent\<close>; and two nodes with the same
  set of properties, equal placeholders, agreeing fallbacks, and pattern lists that are
  permutations of each other under "serialized regex equal and sub-expression equivalent"
  are equivalent.
\<close>

lemma equivalent_order_independent_equivp:
  assumes "equivp (filterEquivalent L)"
  shows
    "(set ps = set (properties a) \<and> mset pats = mset (patternProperties a) \<longrightarrow>
        equivalent L (a\<lparr>properties := ps, patternProperties := pats\<rparr>) other =
        equivalent L a other) \<and>
     (set ps = set (properties b) \<and> mset pats = mset (patternProperties b) \<longrightarrow>
        equivalent L a (AllowedPropertiesExpression (b\<lparr>properties := ps, patternProperties := pats\<rparr>)) =
        equivalent L a (AllowedPropertiesExpression b)) \<and>
     (set (properties a) = set (properties b) \<and> namePlaceholder a = namePlaceholder b \<and>
      sameOtherwise L a b \<and>
      mset pats = mset (patternProperties b) \<and>
      list_all2 (patternElemEquivalent L) (patternProperties a) pats \<longrightarrow>
        equivalent L a (AllowedPropertiesExpression b) = Inr True)"
proof -
  note eq = equivp_patternElemEquivalent[OF assms]
  have left: "set ps = set (properties a) \<and> mset pats = mset (patternProperties a) \<longrightarrow>
        equivalent L (a\<lparr>properties := ps, patternProperties := pats\<rparr>) other =
        equivalent L a other"
  proof
    assume h: "set ps = set (properties a) \<and> mset pats = mset (patternProperties a)"
    show "equivalent L (a\<lparr>properties := ps, patternProperties := pats\<rparr>) other =
        equivalent L a other"
    proof (cases other)
      case (OtherMatchExpression e)
      then show ?thesis by (simp add: equivalent_def)
    next
      case (AllowedPropertiesExpression realOther)
      have "is_permutation (patternElemEquivalent L) pats (patternProperties realOther) =
            is_permutation (patternElemEquivalent L) (patternProperties a)
              (patternProperties realOther)"
        using is_permutation_reorder_left[OF eq] h by blast
      moreover have "otherwiseDiffers L (a\<lparr>properties := ps, patternProperties := pats\<rparr>) realOther =
          otherwiseDiffers L a realOther"
        by (simp add: otherwiseDiffers_def split: option.splits)
      ultimately show ?thesis
        using h AllowedPropertiesExpression
        by (auto simp: equivalent_def samePropertiesSet_def split: sum.splits)
    qed
  qed
  have right: "set ps = set (properties b) \<and> mset pats = mset (patternProperties b) \<longrightarrow>
        equivalent L a (AllowedPropertiesExpression (b\<lparr>properties := ps, patternProperties := pats\<rparr>)) =
        equivalent L a (AllowedPropertiesExpression b)"
  proof
    assume h: "set ps = set (properties b) \<and> mset pats = mset (patternProperties b)"
    have "is_permutation (patternElemEquivalent L) (patternProperties a) pats =
          is_permutation (patternElemEquivalent L) (patternProperties a) (patternProperties b)"
      using is_permutation_reorder_right[OF eq] h by blast
    moreover have "otherwiseDiffers L a (b\<lparr>properties := ps, patternProperties := pats\<rparr>) =
        otherwiseDiffers L a b"
      by (simp add: otherwiseDiffers_def split: option.splits)
    ultimately show "equivalent L a
          (AllowedPropertiesExpression (b\<lparr>properties := ps, patternProperties := pats\<rparr>)) =
        equivalent L a (AllowedPropertiesExpression b)"
      using h by (auto simp: equivalent_def samePropertiesSet_def split: sum.splits)
  qed
  have pairwise: "set (properties a) = set (properties b) \<and> namePlaceholder a = namePlaceholder b \<and>
      sameOtherwise L a b \<and>
      mset pats = mset (patternProperties b) \<and>
      list_all2 (patternElemEquivalent L) (patternProperties a) pats \<longrightarrow>
        equivalent L a (AllowedPropertiesExpression b) = Inr True"
  proof
    assume h: "set (properties a) = set (properties b) \<and> namePlaceholder a = namePlaceholder b \<and>
      sameOtherwise L a b \<and>
      mset pats = mset (patternProperties b) \<and>
      list_all2 (patternElemEquivalent L) (patternProperties a) pats"
    then have "is_permutation (patternElemEquivalent L) (patternProperties a) (patternProperties b)"
      using is_permutation_pairwise[OF eq] by blast
    with h sameOtherwise_otherwiseDiffers[of L a b]
    show "equivalent L a (AllowedPropertiesExpression b) = Inr True"
      by (simp add: equivalent_def samePropertiesSet_def)
  qed
  from left right pairwise show ?thesis by blast
qed

lemma equivalent_order_independent_example:
  "equivp (filterEquivalent testLibrary) \<and>
   nodeBA = nodeAB\<lparr>properties := properties nodeBA, patternProperties := patternProperties nodeBA\<rparr> \<and>
   equivalent testLibrary nodeAB (AllowedPropertiesExpression nodeBA) = Inr True \<and>
   equivalent testLibrary nodeBA (AllowedPropertiesExpression nodeAB) = Inr True"
proof -
  have e: "equivp (filterEquivalent testLibrary)"
    by (simp add: testLibrary_def identity_equivp)
  have shape:
    "nodeBA = nodeAB\<lparr>properties := properties nodeBA, patternProperties := patternProperties nodeBA\<rparr>"
    by (simp add: nodeAB_def nodeBA_def)
  have reorder: "set (properties nodeBA) = set (properties nodeAB)"
    "mset (patternProperties nodeBA) = mset (patternProperties nodeAB)"
    by (auto simp: nodeAB_def nodeBA_def)
  have self: "equivalent testLibrary nodeAB (AllowedPropertiesExpression nodeAB) = Inr True"
    by (simp add: equivalent_def samePropertiesSet_def otherwiseDiffers_def is_permutation_def
          patternElemEquivalent_def nodeAB_def testLibrary_def)
  note t = equivalent_order_independent_equivp[OF e, of "properties nodeBA" nodeAB "patternProperties nodeBA"]
  from t[of "AllowedPropertiesExpression nodeAB" nodeAB] reorder shape self
  have l: "equivalent testLibrary nodeBA (AllowedPropertiesExpression nodeAB) = Inr True"
    by simp
  from t[of "AllowedPropertiesExpression nodeAB" nodeAB] reorder shape self
  have r: "equivalent testLibrary nodeAB (AllowedPropertiesExpression nodeBA) = Inr True"
    by simp
  from e shape l r show ?thesis by blast
qed

lemma inner_comparisons:
  "equivalent testLibrary nodeBoolOtherwise (AllowedPropertiesExpression nodeExprOtherwise) =
     Inr True"
  "equivalent testLibrary nodeBoolOtherwise
     (AllowedPropertiesExpression nodeExprOtherwiseString) = Inr True"
  "equivalent testLibrary nodeExprOtherwiseString
     (AllowedPropertiesExpression nodeExprOtherwiseString) = Inr True"
  "equivalent testLibrary nodeExprOtherwiseString
     (AllowedPropertiesExpression nodeExprOtherwise) = Inr False"
  "equivalent testLibrary nodeExprOtherwise
     (AllowedPropertiesExpression nodeExprOtherwiseString) = Inr False"
  by (simp_all add: nodeBoolOtherwise_def nodeExprOtherwise_def nodeExprOtherwiseString_def
        equivalent_def otherwiseDiffers_def samePropertiesSet_def is_permutation_def
        testLibrary_def withPlaceholder_def typeIs_def typeIsNumber_def typeOfBSONType_def)

lemma outer_predicate:
  "patternElemEquivalent nestedLibrary (Regex ''^a'', withPlaceholder ''i'' a)
     (Regex ''^a'', withPlaceholder ''i'' b) =
   (equivalent testLibrary a (AllowedPropertiesExpression b) = Inr True)"
  by (simp add: patternElemEquivalent_def nestedLibrary_def withPlaceholder_def)

lemma outer_equivalent:
  "equivalent nestedLibrary (outerNode xs) (AllowedPropertiesExpression (outerNode ys)) =
   Inr (is_permutation (patternElemEquivalent nestedLibrary)
          (patternProperties (outerNode xs)) (patternProperties (outerNode ys)))"
  by (simp add: equivalent_def[of nestedLibrary] otherwiseDiffers_def samePropertiesSet_def
        outerNode_def)

lemma outer_patterns:
  "patternProperties (outerNode [a, b]) =
   [(Regex ''^a'', withPlaceholder ''i'' a), (Regex ''^a'', withPlaceholder ''i'' b)]"
  by (simp add: outerNode_def)

lemma outer_init:
  "initBool newAllowedProperties []
     (map (\<lambda>f. (Regex ''^a'', withPlaceholder ''i'' f)) filters) True ''i'' =
   Inr (outerNode filters)"
  by (simp add: initBool_def newAllowedProperties_def outerNode_def)

text \<open>
  C6. Equivalence of AllowedProperties nodes is independent of the order of the patterns:
  reordering \<open>patternProperties\<close> never changes the result of \<open>equivalent\<close>. The source
  does otherwise when the sub-expressions are AllowedProperties nodes with fallbacks of
  different kinds, which \<open>equivalent\<close> compares as C3 shows. The receiver has the
  sub-expressions (boolean \<open>true\<close>, string expression); against the argument with
  (number expression, string expression) the result is true, against the same argument with
  its two patterns swapped it is false. All three nodes are results of \<open>init\<close> on a new
  node, and no comparison on the way reads a null pointer.
\<close>

theorem equivalent_depends_on_pattern_order:
  "initBool newAllowedProperties []
     [(Regex ''^a'', withPlaceholder ''i'' nodeBoolOtherwise),
      (Regex ''^a'', withPlaceholder ''i'' nodeExprOtherwiseString)] True ''i'' =
     Inr (outerNode [nodeBoolOtherwise, nodeExprOtherwiseString]) \<and>
   initBool newAllowedProperties []
     [(Regex ''^a'', withPlaceholder ''i'' nodeExprOtherwise),
      (Regex ''^a'', withPlaceholder ''i'' nodeExprOtherwiseString)] True ''i'' =
     Inr (outerNode [nodeExprOtherwise, nodeExprOtherwiseString]) \<and>
   initBool newAllowedProperties []
     [(Regex ''^a'', withPlaceholder ''i'' nodeExprOtherwiseString),
      (Regex ''^a'', withPlaceholder ''i'' nodeExprOtherwise)] True ''i'' =
     Inr (outerNode [nodeExprOtherwiseString, nodeExprOtherwise]) \<and>
   mset (patternProperties (outerNode [nodeExprOtherwiseString, nodeExprOtherwise])) =
   mset (patternProperties (outerNode [nodeExprOtherwise, nodeExprOtherwiseString])) \<and>
   equivalent nestedLibrary (outerNode [nodeBoolOtherwise, nodeExprOtherwiseString])
     (AllowedPropertiesExpression (outerNode [nodeExprOtherwise, nodeExprOtherwiseString])) =
     Inr True \<and>
   equivalent nestedLibrary (outerNode [nodeBoolOtherwise, nodeExprOtherwiseString])
     (AllowedPropertiesExpression (outerNode [nodeExprOtherwiseString, nodeExprOtherwise])) =
     Inr False \<and>
   equivalent testLibrary nodeBoolOtherwise (AllowedPropertiesExpression nodeExprOtherwise) =
     Inr True \<and>
   equivalent testLibrary nodeBoolOtherwise
     (AllowedPropertiesExpression nodeExprOtherwiseString) = Inr True \<and>
   equivalent testLibrary nodeExprOtherwiseString
     (AllowedPropertiesExpression nodeExprOtherwiseString) = Inr True \<and>
   equivalent testLibrary nodeExprOtherwiseString
     (AllowedPropertiesExpression nodeExprOtherwise) = Inr False \<and>
   equivalent testLibrary nodeExprOtherwise
     (AllowedPropertiesExpression nodeExprOtherwiseString) = Inr False"
proof -
  have perm: "mset (patternProperties (outerNode [nodeExprOtherwiseString, nodeExprOtherwise])) =
      mset (patternProperties (outerNode [nodeExprOtherwise, nodeExprOtherwiseString]))"
    by (simp add: outer_patterns)
  have same: "equivalent nestedLibrary (outerNode [nodeBoolOtherwise, nodeExprOtherwiseString])
     (AllowedPropertiesExpression (outerNode [nodeExprOtherwise, nodeExprOtherwiseString])) =
     Inr True"
    by (simp add: outer_equivalent outer_patterns is_permutation_def outer_predicate
          inner_comparisons)
  have reordered: "equivalent nestedLibrary (outerNode [nodeBoolOtherwise, nodeExprOtherwiseString])
     (AllowedPropertiesExpression (outerNode [nodeExprOtherwiseString, nodeExprOtherwise])) =
     Inr False"
    by (simp add: outer_equivalent outer_patterns is_permutation_def outer_predicate
          inner_comparisons count_if_def)
  from perm same reordered inner_comparisons
    outer_init[of "[nodeBoolOtherwise, nodeExprOtherwiseString]"]
    outer_init[of "[nodeExprOtherwise, nodeExprOtherwiseString]"]
    outer_init[of "[nodeExprOtherwiseString, nodeExprOtherwise]"]
  show ?thesis by simp
qed

lemma regex_cloneRegex: "regex (cloneRegex r) = regex r"
  by (cases r) (simp add: cloneRegex_def)

lemma serializedRegex_cloneRegex: "serializedRegex (cloneRegex r) = serializedRegex r"
  by (cases r) (simp add: cloneRegex_def)

lemma mismatch_list_all2:
  "list_all2 pred xs ys \<Longrightarrow> mismatch pred xs ys = ([], [])"
  by (induction rule: list_all2_induct) simp_all

lemma is_permutation_list_all2:
  "list_all2 pred xs ys \<Longrightarrow> is_permutation pred xs ys"
  using list_all2_lengthD[of pred xs ys] mismatch_list_all2[of pred xs ys]
  by (simp add: is_permutation_def)

lemma fieldPasses_clone:
  assumes "\<forall>e v. filterMatchesSingleElement L (filterShallowClone L e) v =
                 filterMatchesSingleElement L e v"
    and "properties c = properties t"
    and "patternProperties c = map (clonePatternElem L) (patternProperties t)"
    and "otherwise c = map_option (\<lambda>ow. \<lparr>getPlaceholder = getPlaceholder ow,
            getFilter = filterShallowClone L (getFilter ow)\<rparr>) (otherwise t)"
    and "otherwise t = None \<longrightarrow> boolOtherwise c = boolOtherwise t"
  shows "fieldPasses L c item = fieldPasses L t item"
proof -
  have ap: "\<And>e. patternApplies L item (clonePatternElem L e) = patternApplies L item e"
    by (simp add: patternApplies_def clonePatternElem_def regex_cloneRegex)
  have ac: "\<And>e. patternAccepts L item (clonePatternElem L e) = patternAccepts L item e"
    by (simp add: patternAccepts_def clonePatternElem_def assms(1)[rule_format])
  have ow: "otherwiseAccepts L c item = otherwiseAccepts L t item"
    using assms(4,5)
    by (cases "otherwise t") (simp_all add: otherwiseAccepts_def assms(1)[rule_format])
  show ?thesis
    by (simp add: fieldPasses_def assms(2,3) ap ac ow)
qed

text \<open>
  C7. Cloning a node that satisfies the invariant of the data model returns a new node and
  leaves the receiver as it was. The new node holds the clone of the tag, the same property
  set and placeholder, every regex rebuilt from its serialized source with the clone of its
  sub-expression, and the clone of the fallback expression or the same boolean. Given that a
  cloned sub-expression is equivalent to its original and matches the same values, the clone
  is equivalent to the receiver and gives the same verdict on every document and on every
  single value.
\<close>

theorem shallowClone_fidelity:
  assumes "wellFormed t"
    and "\<forall>e. filterEquivalent L e (filterShallowClone L e)"
    and "\<forall>e v. filterMatchesSingleElement L (filterShallowClone L e) v =
                 filterMatchesSingleElement L e v"
  shows "\<exists>c. shallowClone L t = Inr (t, c) \<and>
           tag c = map_option (tagClone L) (tag t) \<and>
           properties c = properties t \<and>
           namePlaceholder c = namePlaceholder t \<and>
           patternProperties c = map (clonePatternElem L) (patternProperties t) \<and>
           otherwise c = map_option (\<lambda>ow. \<lparr>getPlaceholder = getPlaceholder ow,
              getFilter = filterShallowClone L (getFilter ow)\<rparr>) (otherwise t) \<and>
           (otherwise t = None \<longrightarrow> boolOtherwise c = boolOtherwise t) \<and>
           equivalent L t (AllowedPropertiesExpression c) = Inr True \<and>
           (\<forall>doc. matches L c doc = matches L t doc) \<and>
           (\<forall>v. matchesSingleElement L c v = matchesSingleElement L t v)"
proof -
  let ?new = "case tag t of Some g \<Rightarrow> newAllowedProperties\<lparr>tag := Some (tagClone L g)\<rparr>
              | None \<Rightarrow> (newAllowedProperties :: ('a, 'b) AllowedProperties)"
  let ?pats = "map (clonePatternElem L) (patternProperties t)"
  let ?ow = "map_option (\<lambda>ow. \<lparr>getPlaceholder = getPlaceholder ow,
              getFilter = filterShallowClone L (getFilter ow)\<rparr>) (otherwise t)"
  define c where "c = ?new\<lparr>properties := properties t, patternProperties := ?pats,
      otherwise := ?ow, boolOtherwise := (if otherwise t = None then boolOtherwise t else True),
      namePlaceholder := namePlaceholder t\<rparr>"
  have newtag: "tag ?new = map_option (tagClone L) (tag t)"
    by (cases "tag t") (simp_all add: newAllowedProperties_def)
  have newbool: "boolOtherwise ?new = True" "otherwise ?new = None"
    by (cases "tag t"; simp add: newAllowedProperties_def)+
  have fields: "tag c = map_option (tagClone L) (tag t)" "properties c = properties t"
    "namePlaceholder c = namePlaceholder t" "patternProperties c = ?pats" "otherwise c = ?ow"
    "otherwise t = None \<longrightarrow> boolOtherwise c = boolOtherwise t"
    by (simp_all add: c_def newtag)
  have run: "shallowClone L t = Inr (t, c)"
  proof (cases "otherwise t")
    case None
    have "?new\<lparr>properties := properties t, patternProperties := ?pats,
            boolOtherwise := boolOtherwise t, namePlaceholder := namePlaceholder t\<rparr> = c"
      using None newbool by (simp add: c_def)
    with None assms(1) show ?thesis
      by (auto simp: shallowClone_def initBool_def wellFormed_def Let_def)
  next
    case (Some ow)
    have "?new\<lparr>properties := properties t, patternProperties := ?pats,
            otherwise := ?ow, namePlaceholder := namePlaceholder t\<rparr> = c"
      using Some newbool by (simp add: c_def)
    with Some assms(1) show ?thesis
      by (auto simp: shallowClone_def initExpression_def wellFormed_def Let_def)
  qed
  have pats: "list_all2 (patternElemEquivalent L) (patternProperties t) ?pats"
    using assms(2)
    by (simp add: list_all2_map2 list_all2_same patternElemEquivalent_def clonePatternElem_def
          serializedRegex_cloneRegex)
  have od: "otherwiseDiffers L t c = Inr False"
    using fields(5,6)
    by (cases "otherwise t") (simp_all add: otherwiseDiffers_def assms(2)[rule_format])
  have eqv: "equivalent L t (AllowedPropertiesExpression c) = Inr True"
    using is_permutation_list_all2[OF pats] od fields
    by (simp add: equivalent_def samePropertiesSet_def)
  have fp: "\<And>item. fieldPasses L c item = fieldPasses L t item"
    using fieldPasses_clone[OF assms(3) fields(2) fields(4) fields(5) fields(6)] .
  have mo: "\<And>doc. matchesObject L c doc = matchesObject L t doc"
    by (simp add: matchesObject_fieldPasses fp)
  have m: "\<forall>doc. matches L c doc = matches L t doc"
    by (simp add: matches_def mo)
  have ms: "\<forall>v. matchesSingleElement L c v = matchesSingleElement L t v"
    by (simp add: matchesSingleElement_def mo)
  show ?thesis
    by (rule exI[of _ c]) (intro conjI run fields eqv m ms)
qed

theorem shallowClone_fidelity_witness:
  "wellFormed nodeAA \<and>
   shallowClone testLibrary nodeAA = Inr (nodeAA, nodeAA) \<and>
   equivalent testLibrary nodeAA (AllowedPropertiesExpression nodeAA) = Inr True"
proof -
  have wf: "wellFormed nodeAA" by (simp add: wellFormed_def nodeAA_def)
  have h1: "\<forall>e. filterEquivalent testLibrary e (filterShallowClone testLibrary e)"
    by (simp add: testLibrary_def)
  have h2: "\<forall>e v. filterMatchesSingleElement testLibrary (filterShallowClone testLibrary e) v =
                 filterMatchesSingleElement testLibrary e v"
    by (simp add: testLibrary_def)
  from shallowClone_fidelity[OF wf h1 h2] obtain c where
    c: "shallowClone testLibrary nodeAA = Inr (nodeAA, c)"
       "equivalent testLibrary nodeAA (AllowedPropertiesExpression c) = Inr True"
    by blast
  have "shallowClone testLibrary nodeAA = Inr (nodeAA, nodeAA)"
    by (simp add: shallowClone_def initExpression_def newAllowedProperties_def nodeAA_def
          clonePatternElem_def cloneRegex_def withPlaceholder_def testLibrary_def Let_def)
  with c have "c = nodeAA" by simp
  with wf c show ?thesis by simp
qed

section \<open>Serialization and the schema compiler\<close>

lemma appendPropertiesLoop_closed:
  "appendPropertiesLoop propBob props =
     propBob @ zip (map decimal [length propBob ..< length propBob + length props])
                   (map StringValue props)"
proof (induction props arbitrary: propBob)
  case Nil
  show ?case by simp
next
  case (Cons name rest)
  have "[length propBob ..< length propBob + length (name # rest)] =
        length propBob # [Suc (length propBob) ..< Suc (length propBob) + length rest]"
    by (simp add: upt_rec)
  with Cons.IH[of "arrayAppend propBob (StringValue name)"] show ?case
    by (simp add: arrayAppend_def)
qed

lemma appendPatternsLoop_closed:
  "appendPatternsLoop L patternPropBob pats =
     patternPropBob @ zip (map decimal [length patternPropBob ..< length patternPropBob + length pats])
                          (map (patternDocument L) pats)"
proof (induction pats arbitrary: patternPropBob)
  case Nil
  show ?case by simp
next
  case (Cons item rest)
  have "[length patternPropBob ..< length patternPropBob + length (item # rest)] =
        length patternPropBob #
          [Suc (length patternPropBob) ..< Suc (length patternPropBob) + length rest]"
    by (simp add: upt_rec)
  with Cons.IH[of "arrayAppend patternPropBob (patternDocument L item)"] show ?case
    by (simp add: arrayAppend_def patternDocument_def Let_def)
qed

lemma serialize_shape:
  "serialize L this out =
     out @ [(kName, ObjectValue
       [(kProperties,
           ArrayValue (zip (map decimal [0 ..< length (properties this)])
                           (map StringValue (properties this)))),
        (kNamePlaceholder, StringValue (namePlaceholder this)),
        (kPatternProperties,
           ArrayValue (zip (map decimal [0 ..< length (patternProperties this)])
                           (map (patternDocument L) (patternProperties this)))),
        (kOtherwise,
           case otherwise this of
             Some ow \<Rightarrow> ObjectValue (filterSerialize L (getFilter ow) [])
           | None \<Rightarrow> BoolValue (boolOtherwise this))])]"
  by (cases "otherwise this")
     (simp_all add: serialize_def appendPropertiesLoop_closed appendPatternsLoop_closed)

lemma parse_unknown_keyword:
  "initialKeywordMap name = None \<Longrightarrow>
   parse P ((name, v) # rest) =
     Inl (Status FailedToParse (''Unknown $jsonSchema keyword: '' @ name))"
  by (simp add: parse_def parse'.simps[of P "[]" "(name, v) # rest"] fieldName_def)

text \<open>
  C2. An AllowedProperties node serializes to the canonical object: under the key
  \<open>$_internalSchemaAllowedProperties\<close>, the array of its properties, its name placeholder,
  the array of its patterns as \<open>{regex, expression}\<close> with the regex's source text, and its
  fallback as the serialized sub-expression or the boolean. That object is a match
  expression, not a schema: the schema compiler rejects it with \<open>FailedToParse\<close>, its only
  key being no schema keyword.
\<close>

theorem serialized_node_is_no_schema:
  "serialize L this [] =
     [(kName, ObjectValue
       [(kProperties,
           ArrayValue (zip (map decimal [0 ..< length (properties this)])
                           (map StringValue (properties this)))),
        (kNamePlaceholder, StringValue (namePlaceholder this)),
        (kPatternProperties,
           ArrayValue (zip (map decimal [0 ..< length (patternProperties this)])
                           (map (patternDocument L) (patternProperties this)))),
        (kOtherwise,
           case otherwise this of
             Some ow \<Rightarrow> ObjectValue (filterSerialize L (getFilter ow) [])
           | None \<Rightarrow> BoolValue (boolOtherwise this))])] \<and>
   parse P (serialize L this []) =
     Inl (Status FailedToParse (''Unknown $jsonSchema keyword: '' @ kName))"
proof -
  have "initialKeywordMap kName = None" by (simp add: initialKeywordMap_def)
  from parse_unknown_keyword[OF this] show ?thesis
    by (simp add: serialize_shape[of L this "[]"])
qed

theorem round_trip_counterexample:
  "parse testSchemaLibrary (serialize testLibrary nodeAA []) =
     Inl (Status FailedToParse ''Unknown $jsonSchema keyword: $_internalSchemaAllowedProperties'')"
  by (simp add: serialize_def nodeAA_def parse_def
        parse'.simps[of testSchemaLibrary "[]"] fieldName_def initialKeywordMap_def)

text \<open>
  C9. At the top level (empty path) each of the keyword parsers for \<open>maximum\<close>,
  \<open>minimum\<close>, \<open>maxLength\<close>, \<open>minLength\<close> and \<open>pattern\<close> first validates its element and
  then yields \<open>AlwaysTrue\<close>: \<open>maximum\<close> and \<open>minimum\<close> for every numeric element,
  \<open>maxLength\<close> and \<open>minLength\<close> for every numeric element the integer parser accepts,
  \<open>pattern\<close> for every string; any other element yields the keyword's error
  (\<open>TypeMismatch\<close>, or the integer parser's error). A top-level schema with one of these
  keywords alone and a valid element compiles to the conjunction of \<open>AlwaysTrue\<close>.
\<close>

theorem keyword_parsers_at_top_level:
  "parseMaximum P [] elt typeExpr exclusive =
     (if isNumber elt then Inr AlwaysTrueMatchExpression
      else Inl (Status TypeMismatch (keywordMessage kSchemaMaximumKeyword '' must be a number''))) \<and>
   parseMinimum P [] elt typeExpr exclusive =
     (if isNumber elt then Inr AlwaysTrueMatchExpression
      else Inl (Status TypeMismatch (keywordMessage kSchemaMinimumKeyword '' must be a number''))) \<and>
   parseStrLength T P [] elt typeExpr keyword =
     (if isNumber elt
      then (case parseIntegerElementToNonNegativeLong P elt of
              Inl status \<Rightarrow> Inl status
            | Inr n \<Rightarrow> Inr AlwaysTrueMatchExpression)
      else Inl (Status TypeMismatch (keywordMessage keyword '' must be a number''))) \<and>
   parsePattern P [] elt typeExpr =
     (if elemType elt = String then Inr AlwaysTrueMatchExpression
      else Inl (Status TypeMismatch (keywordMessage kSchemaPatternKeyword '' must be a string''))) \<and>
   (isNumber (kSchemaMaximumKeyword, v) \<longrightarrow>
      parse P [(kSchemaMaximumKeyword, v)] = Inr (AndMatchExpression [AlwaysTrueMatchExpression])) \<and>
   (isNumber (kSchemaMinimumKeyword, v) \<longrightarrow>
      parse P [(kSchemaMinimumKeyword, v)] = Inr (AndMatchExpression [AlwaysTrueMatchExpression])) \<and>
   (isNumber (kSchemaMaxLengthKeyword, v) \<and>
    parseIntegerElementToNonNegativeLong P (kSchemaMaxLengthKeyword, v) = Inr n \<longrightarrow>
      parse P [(kSchemaMaxLengthKeyword, v)] = Inr (AndMatchExpression [AlwaysTrueMatchExpression])) \<and>
   (isNumber (kSchemaMinLengthKeyword, v) \<and>
    parseIntegerElementToNonNegativeLong P (kSchemaMinLengthKeyword, v) = Inr n \<longrightarrow>
      parse P [(kSchemaMinLengthKeyword, v)] = Inr (AndMatchExpression [AlwaysTrueMatchExpression])) \<and>
   (elemType (kSchemaPatternKeyword, v) = String \<longrightarrow>
      parse P [(kSchemaPatternKeyword, v)] = Inr (AndMatchExpression [AlwaysTrueMatchExpression]))"
proof -
  have maxP: "parseMaximum P [] elt typeExpr exclusive =
     (if isNumber elt then Inr AlwaysTrueMatchExpression
      else Inl (Status TypeMismatch (keywordMessage kSchemaMaximumKeyword '' must be a number'')))"
    for elt typeExpr exclusive
    by (simp add: parseMaximum_def)
  have minP: "parseMinimum P [] elt typeExpr exclusive =
     (if isNumber elt then Inr AlwaysTrueMatchExpression
      else Inl (Status TypeMismatch (keywordMessage kSchemaMinimumKeyword '' must be a number'')))"
    for elt typeExpr exclusive
    by (simp add: parseMinimum_def)
  have lenP: "parseStrLength T P [] elt typeExpr keyword =
     (if isNumber elt
      then (case parseIntegerElementToNonNegativeLong P elt of
              Inl status \<Rightarrow> Inl status
            | Inr n \<Rightarrow> Inr AlwaysTrueMatchExpression)
      else Inl (Status TypeMismatch (keywordMessage keyword '' must be a number'')))"
    for T elt typeExpr keyword
    by (simp add: parseStrLength_def split: sum.splits)
  have patP: "parsePattern P [] elt typeExpr =
     (if elemType elt = String then Inr AlwaysTrueMatchExpression
      else Inl (Status TypeMismatch (keywordMessage kSchemaPatternKeyword '' must be a string'')))"
    for elt typeExpr
    by (simp add: parsePattern_def)
  have top: "parse P [(name, v)] =
      (case fillKeywordMap [(name, v)] initialKeywordMap of
         Inl f \<Rightarrow> Inl f
       | Inr keywordMap \<Rightarrow> parse' P [] [(name, v)])" for name v
    by (simp add: parse_def parse'.simps[of P "[]" "[(name, v)]"] split: sum.splits)
  have c1: "isNumber (kSchemaMaximumKeyword, v) \<longrightarrow>
      parse P [(kSchemaMaximumKeyword, v)] = Inr (AndMatchExpression [AlwaysTrueMatchExpression])"
    by (simp add: parse_def parse'.simps[of P "[]" "[(kSchemaMaximumKeyword, v)]"]
          fieldName_def block_defs parseType_def maxP)
  have c2: "isNumber (kSchemaMinimumKeyword, v) \<longrightarrow>
      parse P [(kSchemaMinimumKeyword, v)] = Inr (AndMatchExpression [AlwaysTrueMatchExpression])"
    by (simp add: parse_def parse'.simps[of P "[]" "[(kSchemaMinimumKeyword, v)]"]
          fieldName_def block_defs parseType_def minP)
  have c3: "isNumber (kSchemaMaxLengthKeyword, v) \<and>
    parseIntegerElementToNonNegativeLong P (kSchemaMaxLengthKeyword, v) = Inr n \<longrightarrow>
      parse P [(kSchemaMaxLengthKeyword, v)] = Inr (AndMatchExpression [AlwaysTrueMatchExpression])"
    by (simp add: parse_def parse'.simps[of P "[]" "[(kSchemaMaxLengthKeyword, v)]"]
          fieldName_def block_defs parseType_def lenP)
  have c4: "isNumber (kSchemaMinLengthKeyword, v) \<and>
    parseIntegerElementToNonNegativeLong P (kSchemaMinLengthKeyword, v) = Inr n \<longrightarrow>
      parse P [(kSchemaMinLengthKeyword, v)] = Inr (AndMatchExpression [AlwaysTrueMatchExpression])"
    by (simp add: parse_def parse'.simps[of P "[]" "[(kSchemaMinLengthKeyword, v)]"]
          fieldName_def block_defs parseType_def lenP)
  have c5: "elemType (kSchemaPatternKeyword, v) = String \<longrightarrow>
      parse P [(kSchemaPatternKeyword, v)] = Inr (AndMatchExpression [AlwaysTrueMatchExpression])"
    by (simp add: parse_def parse'.simps[of P "[]" "[(kSchemaPatternKeyword, v)]"]
          fieldName_def block_defs parseType_def patP)
  from maxP minP lenP patP c1 c2 c3 c4 c5 show ?thesis by blast
qed

theorem keyword_parsers_at_top_level_witness:
  "parse testSchemaLibrary [(''maximum'', IntValue 5)] =
     Inr (AndMatchExpression [AlwaysTrueMatchExpression]) \<and>
   parse testSchemaLibrary [(''minimum'', DoubleValue (3 / 2))] =
     Inr (AndMatchExpression [AlwaysTrueMatchExpression]) \<and>
   parse testSchemaLibrary [(''maxLength'', IntValue 3)] =
     Inr (AndMatchExpression [AlwaysTrueMatchExpression]) \<and>
   parse testSchemaLibrary [(''minLength'', LongValue 0)] =
     Inr (AndMatchExpression [AlwaysTrueMatchExpression]) \<and>
   parse testSchemaLibrary [(''pattern'', StringValue ''^a'')] =
     Inr (AndMatchExpression [AlwaysTrueMatchExpression])"
proof -
  have h: "isNumber (''maximum'', IntValue 5)" "isNumber (''minimum'', DoubleValue (3 / 2))"
    "isNumber (''maxLength'', IntValue 3)" "isNumber (''minLength'', LongValue 0)"
    "parseIntegerElementToNonNegativeLong testSchemaLibrary (''maxLength'', IntValue 3) = Inr 3"
    "parseIntegerElementToNonNegativeLong testSchemaLibrary (''minLength'', LongValue 0) = Inr 0"
    "elemType (''pattern'', StringValue ''^a'') = String"
    by (simp_all add: isNumber_def elemType_def testSchemaLibrary_def nonNegativeInteger_def)
  note t = keyword_parsers_at_top_level[of testSchemaLibrary "(''maximum'', IntValue 5)" None False
      InternalSchemaMaxLengthMatchExpression "''maxLength''"]
  show ?thesis
    using h t[of "IntValue 5" 0] t[of "DoubleValue (3 / 2)" 0] t[of "IntValue 3" 3]
      t[of "LongValue 0" 0] t[of "StringValue ''^a''" 0]
    by simp
qed

theorem keyword_parsers_at_top_level_counterexample:
  "parseMaximum testSchemaLibrary [] (''maximum'', StringValue ''x'') None False =
     Inl (Status TypeMismatch ''$jsonSchema keyword 'maximum' must be a number'') \<and>
   parseStrLength InternalSchemaMaxLengthMatchExpression testSchemaLibrary []
       (''maxLength'', IntValue (- 1)) None ''maxLength'' =
     Inl (Status BadValue ''Expected a positive number'') \<and>
   parse testSchemaLibrary [(''pattern'', IntValue 1)] =
     Inl (Status TypeMismatch ''$jsonSchema keyword 'pattern' must be a string'')"
  by (simp add: parseMaximum_def parseStrLength_def parsePattern_def isNumber_def elemType_def
        keywordMessage_def testSchemaLibrary_def nonNegativeInteger_def parse_def
        parse'.simps[of _ "[]"] fieldName_def block_defs parseType_def)











end
